theory Spec2Isabelle
  imports Main "HOL-Library.Word" "HOL-Library.Signed_Division"
begin

unbundle bit_operations_syntax

section \<open>Split-kernel ray scheduling: background / buffer update and lamp emission\<close>

text \<open>
  The development embeds two kernels of the Cycles split path tracer,
  \<^verbatim>\<open>kernel_background_buffer_update\<close> and \<^verbatim>\<open>kernel_lamp_emission\<close>, as functions of one
  lane (work item) running alone on the global state. Barriers are points where nothing
  happens for a single lane. C \<^verbatim>\<open>int\<close> and \<^verbatim>\<open>unsigned int\<close> are both \<open>32 word\<close>; the
  operations that differ between them (division, remainder, comparison) are written in
  their signed or unsigned form as the C typing rules select them.
\<close>

subsection \<open>Machine integers\<close>

type_synonym u32 = "32 word"

text \<open>C's \<^verbatim>\<open>/\<close> and \<^verbatim>\<open>%\<close> on \<^verbatim>\<open>int\<close>: truncation towards zero, undefined for a zero
  divisor and for \<^verbatim>\<open>INT_MIN / -1\<close>; the undefined cases are \<open>None\<close>.\<close>

definition c_sdiv :: "u32 \<Rightarrow> u32 \<Rightarrow> u32 option" where
  "c_sdiv a b =
     (if b = 0 then None
      else if sint a = - (2 ^ 31) \<and> sint b = - 1 then None
      else Some (word_of_int (sint a sdiv sint b)))"

definition c_smod :: "u32 \<Rightarrow> u32 \<Rightarrow> u32 option" where
  "c_smod a b =
     (if b = 0 then None
      else if sint a = - (2 ^ 31) \<and> sint b = - 1 then None
      else Some (word_of_int (sint a smod sint b)))"

subsection \<open>Data\<close>

text \<open>Modelled from the spec: the ray state tag (section 4.3). The macros \<^verbatim>\<open>IS_STATE\<close> and
  \<^verbatim>\<open>ASSIGN_RAY_STATE\<close> and the enumeration of the states are not in the sources; the tag of
  slot \<open>i\<close> is the value of \<open>ray_state\<close> at \<open>i\<close>, \<^verbatim>\<open>IS_STATE\<close> compares it and
  \<^verbatim>\<open>ASSIGN_RAY_STATE\<close> overwrites it.\<close>

datatype ray_state_t =
    RAY_ACTIVE
  | RAY_INACTIVE
  | RAY_UPDATE_BUFFER
  | RAY_HIT_BACKGROUND
  | RAY_TO_REGENERATE
  | RAY_REGENERATED

text \<open>The two queues that the kernels name; \<open>queue_data\<close> and \<open>queue_index\<close> below are
  indexed by the queue and, for the data, by the position in the queue.\<close>

datatype queue_id =
    QUEUE_ACTIVE_AND_REGENERATED_RAYS
  | QUEUE_HITBG_BUFF_UPDATE_TOREGEN_RAYS

text \<open>Floating point values are kept abstract (type \<open>'f\<close>); their operations are
  collaborators, see \<open>ext\<close> below.\<close>

type_synonym 'f float3 = "'f \<times> 'f \<times> 'f"
type_synonym 'f float4 = "'f \<times> 'f \<times> 'f \<times> 'f"

text \<open>\<^verbatim>\<open>Ray\<close>: the fields the two kernels read or write; \<open>'df\<close> is the type of a ray
  differential.\<close>

record ('f, 'df) Ray =
  Ray_P :: "'f float3"
  Ray_D :: "'f float3"
  Ray_t :: 'f
  Ray_time :: 'f
  Ray_dP :: 'df
  Ray_dD :: 'df

text \<open>\<^verbatim>\<open>PathState\<close>: the fields the two kernels read or write.\<close>

record 'f PathState =
  flag :: u32
  bounce :: u32
  ray_t :: 'f

text \<open>Compile-time switches of the sources (\<^verbatim>\<open>#ifdef\<close>), as a configuration.\<close>

record cfg =
  WORK_STEALING :: bool
  PASSES :: bool
  BACKGROUND :: bool
  KERNEL_DEBUG :: bool
  COMPUTE_DEVICE_GPU :: bool
  LAMP_MIS :: bool

text \<open>The fields of \<^verbatim>\<open>kernel_data\<close> that the kernels read.\<close>

record kernel_data =
  background_transparent :: u32
  film_pass_flag :: u32
  film_pass_stride :: u32
  film_use_light_pass :: u32
  integrator_use_lamp_mis :: u32

text \<open>The fields of \<^verbatim>\<open>split_params\<close> that the kernels only read. The fields \<^verbatim>\<open>w\<close>,
  \<^verbatim>\<open>h\<close>, \<^verbatim>\<open>x\<close>, \<^verbatim>\<open>y\<close> carry the names of the locals they are loaded into.\<close>

record split_params =
  sw :: u32
  sh :: u32
  sx :: u32
  sy :: u32
  stride :: u32
  rng_offset_x :: u32
  rng_offset_y :: u32
  rng_stride :: u32
  parallel_samples :: u32
  start_sample :: u32
  end_sample :: u32
  num_samples :: u32
  queue_size :: u32
  use_queues_flag :: "8 word"

text \<open>Calls that write the global buffers \<^verbatim>\<open>per_sample_output_buffers\<close> and
  \<^verbatim>\<open>rng_state\<close>. The functions are not in the sources; a call is recorded with its
  arguments, a buffer pointer as its offset from the start of the buffer.\<close>

datatype ('f, 'l, 'd) call =
    kernel_write_light_passes u32 'l u32
  | kernel_write_debug_passes u32 "'f PathState" 'd u32
  | kernel_write_pass_float4 u32 u32 "'f float4"
  | path_rng_end u32 u32

text \<open>The global state: the arrays of \<^verbatim>\<open>split_state\<close> indexed by ray index, the queues
  (\<open>queue_index\<close> is \<^verbatim>\<open>split_params->queue_index\<close>), the work pool, the calls made on the
  global buffers so far (oldest first), and the list of the \<^verbatim>\<open>ASSIGN_RAY_STATE\<close>
  executed so far (oldest first). An array is a total function of the ray index; an index
  outside the pool is not told apart.\<close>

record ('f, 'df, 'l, 'd, 'wp) split_state =
  ray_state :: "u32 \<Rightarrow> ray_state_t"
  path_state :: "u32 \<Rightarrow> 'f PathState"
  path_radiance :: "u32 \<Rightarrow> 'l"
  ray :: "u32 \<Rightarrow> ('f, 'df) Ray"
  throughput :: "u32 \<Rightarrow> 'f float3"
  L_transparent :: "u32 \<Rightarrow> 'f"
  rng :: "u32 \<Rightarrow> u32"
  work_array :: "u32 \<Rightarrow> u32"
  debug_data :: "u32 \<Rightarrow> 'd"
  isect_t :: "u32 \<Rightarrow> 'f"
  queue_data :: "queue_id \<Rightarrow> u32 \<Rightarrow> u32"
  queue_index :: "queue_id \<Rightarrow> u32"
  work_pool_wgs :: 'wp
  global_writes :: "('f, 'l, 'd) call list"
  assigned :: "(u32 \<times> ray_state_t) list"

text \<open>The locals of \<^verbatim>\<open>kernel_background_buffer_update\<close> that live across its three
  blocks. The two pointers are offsets from the start of their buffers.\<close>

record locals =
  my_work :: u32
  sample :: u32
  rng_state :: u32
  per_sample_output_buffers :: u32
  enqueue_flag :: bool

text \<open>The identifiers of a lane (\<^verbatim>\<open>ccl_global_id\<close>, \<^verbatim>\<open>ccl_global_size\<close>), as the 32-bit
  values that the kernels assign to their \<^verbatim>\<open>int\<close> locals.\<close>

record lane =
  global_id0 :: u32
  global_id1 :: u32
  global_size0 :: u32

text \<open>The collaborators: constants, floating point operations and functions that the
  kernels use and that are not in the sources. A function that the source calls with a
  pointer to a local or to an array element takes the old value and returns the new one.
  \<^verbatim>\<open>kernel_path_trace_setup\<close> reads the global buffer \<^verbatim>\<open>rng_state\<close>: its first argument
  here is the list of the calls made on the global buffers so far, which determines their
  content. \<^verbatim>\<open>get_next_work\<close> returns the validity flag, the new \<^verbatim>\<open>my_work\<close> and the new
  work pool; \<^verbatim>\<open>indirect_lamp_emission\<close> returns the emission when its result is true.\<close>

record ('f, 'df, 'l, 'd, 'wp) ext =
  QUEUE_EMPTY_SLOT :: u32
  PATH_RAY_CAMERA :: u32
  PASS_BACKGROUND :: u32
  f_zero :: 'f
  f_one :: 'f
  f_add :: "'f \<Rightarrow> 'f \<Rightarrow> 'f"
  f_sub :: "'f \<Rightarrow> 'f \<Rightarrow> 'f"
  f_mul :: "'f \<Rightarrow> 'f \<Rightarrow> 'f"
  f_neq :: "'f \<Rightarrow> 'f \<Rightarrow> bool"
  average :: "'f float3 \<Rightarrow> 'f"
  get_ray_index :: "u32 \<Rightarrow> queue_id \<Rightarrow> (queue_id \<Rightarrow> u32 \<Rightarrow> u32) \<Rightarrow> u32 \<Rightarrow> u32
                    \<Rightarrow> u32 \<times> (queue_id \<Rightarrow> u32 \<Rightarrow> u32)"
  get_my_sample :: "u32 \<Rightarrow> u32 \<Rightarrow> u32 \<Rightarrow> u32 \<Rightarrow> u32 \<Rightarrow> u32"
  get_pixel_tile_position :: "u32 \<Rightarrow> u32 \<Rightarrow> u32 \<Rightarrow> u32 \<Rightarrow> u32 \<Rightarrow> u32 \<Rightarrow> u32
                    \<Rightarrow> u32 \<times> u32 \<times> u32 \<times> u32"
  get_next_work :: "'wp \<Rightarrow> u32 \<Rightarrow> u32 \<Rightarrow> u32 \<Rightarrow> u32 \<Rightarrow> u32 \<Rightarrow> u32 \<Rightarrow> u32 \<times> u32 \<times> 'wp"
  indirect_background :: "'f PathState \<Rightarrow> ('f, 'df) Ray \<Rightarrow> 'f float3"
  path_radiance_accum_background :: "'l \<Rightarrow> 'f float3 \<Rightarrow> 'f float3 \<Rightarrow> u32 \<Rightarrow> 'l"
  path_radiance_clamp_and_sum :: "'l \<Rightarrow> 'l \<times> 'f float3"
  kernel_path_trace_setup :: "('f, 'l, 'd) call list \<Rightarrow> u32 \<Rightarrow> u32 \<Rightarrow> u32 \<Rightarrow> u32 \<Rightarrow> u32
                    \<Rightarrow> ('f, 'df) Ray \<Rightarrow> u32 \<times> ('f, 'df) Ray"
  path_radiance_init :: "'l \<Rightarrow> u32 \<Rightarrow> 'l"
  path_state_init_fields :: "'f PathState \<Rightarrow> u32 \<Rightarrow> u32 \<Rightarrow> ('f, 'df) Ray \<Rightarrow> 'f PathState"
  debug_data_init :: "'d \<Rightarrow> 'd"
  indirect_lamp_emission :: "'f PathState \<Rightarrow> ('f, 'df) Ray \<Rightarrow> 'f float3 option"
  path_radiance_accum_emission :: "'l \<Rightarrow> 'f float3 \<Rightarrow> 'f float3 \<Rightarrow> u32 \<Rightarrow> 'l"

subsection \<open>Helpers that are not in the sources\<close>

definition IS_STATE :: "(u32 \<Rightarrow> ray_state_t) \<Rightarrow> u32 \<Rightarrow> ray_state_t \<Rightarrow> bool" where
  "IS_STATE rs i s = (rs i = s)"

definition ASSIGN_RAY_STATE ::
  "('f, 'df, 'l, 'd, 'wp) split_state \<Rightarrow> u32 \<Rightarrow> ray_state_t \<Rightarrow> ('f, 'df, 'l, 'd, 'wp) split_state" where
  "ASSIGN_RAY_STATE st i s =
     st\<lparr>ray_state := (ray_state st)(i := s), assigned := assigned st @ [(i, s)]\<rparr>"

text \<open>A call on a global buffer is appended to the record of the calls.\<close>

definition global_call ::
  "('f, 'df, 'l, 'd, 'wp) split_state \<Rightarrow> ('f, 'l, 'd) call \<Rightarrow> ('f, 'df, 'l, 'd, 'wp) split_state" where
  "global_call st cl = st\<lparr>global_writes := global_writes st @ [cl]\<rparr>"

text \<open>Modelled from the spec: \<^verbatim>\<open>path_state_init\<close> is not in the sources. The spec
  (section 4.4, step 3) says that a valid regenerated ray has a zero bounce count; the
  other fields are left to the collaborator \<open>path_state_init_fields\<close>.\<close>

definition path_state_init ::
  "('f, 'df, 'l, 'd, 'wp) ext \<Rightarrow> 'f PathState \<Rightarrow> u32 \<Rightarrow> u32 \<Rightarrow> ('f, 'df) Ray \<Rightarrow> 'f PathState" where
  "path_state_init e ps r s ry = (path_state_init_fields e ps r s ry)\<lparr>bounce := 0\<rparr>"

text \<open>Modelled from the spec: \<^verbatim>\<open>enqueue_ray_index_local\<close> is not in the sources. The spec
  (section 4.2) says that enqueue appends the slot index to the queue and increments the
  occupancy counter, and that the lane-group-local counter (\<^verbatim>\<open>local_queue_atomics\<close>, set
  to zero in lines 74-78) is an optimisation only; it is left out. With a zero
  \<^verbatim>\<open>enqueue_flag\<close> nothing is appended.\<close>

definition enqueue_ray_index_local ::
  "u32 \<Rightarrow> queue_id \<Rightarrow> bool \<Rightarrow> ('f, 'df, 'l, 'd, 'wp) split_state \<Rightarrow> ('f, 'df, 'l, 'd, 'wp) split_state" where
  "enqueue_ray_index_local ray_index q flg st =
     (if flg then
        st\<lparr>queue_data := (queue_data st)(q := (queue_data st q)(queue_index st q := ray_index)),
           queue_index := (queue_index st)(q := queue_index st q + 1)\<rparr>
      else st)"

subsection \<open>\<^verbatim>\<open>kernel_background_buffer_update\<close>\<close>

text \<open>The pointer arithmetic of lines 163 and 225 (\<open>rng_state_at\<close>) and of lines 164 and
  227-228 (\<open>buffer_at\<close>), in \<^verbatim>\<open>unsigned int\<close>.\<close>

definition rng_state_at :: "split_params \<Rightarrow> u32 \<Rightarrow> u32 \<Rightarrow> u32" where
  "rng_state_at sp tile_x tile_y =
     (rng_offset_x sp + tile_x) + (rng_offset_y sp + tile_y) * rng_stride sp"

definition buffer_at :: "kernel_data \<Rightarrow> split_params \<Rightarrow> u32 \<Rightarrow> u32 \<Rightarrow> u32 \<Rightarrow> u32" where
  "buffer_at kd sp tile_x tile_y my_sample_tile =
     (((tile_x + (tile_y * stride sp)) * parallel_samples sp) + my_sample_tile) * film_pass_stride kd"

text \<open>Lines 131-164: the locals. \<^verbatim>\<open>my_work\<close> does not exist without work stealing.\<close>

definition prologue ::
  "cfg \<Rightarrow> ('f, 'df, 'l, 'd, 'wp) ext \<Rightarrow> kernel_data \<Rightarrow> split_params \<Rightarrow> u32
   \<Rightarrow> ('f, 'df, 'l, 'd, 'wp) split_state \<Rightarrow> locals option" where
  "prologue c e kd sp ray_index st =
     (if WORK_STEALING c then
        (let w = work_array st ray_index;
             s = get_my_sample e w (sw sp) (sh sp) (parallel_samples sp) ray_index + start_sample sp;
             (pixel_x, pixel_y, tile_x, tile_y) =
                get_pixel_tile_position e w (sw sp) (sh sp) (sx sp) (sy sp) (parallel_samples sp) ray_index
         in Some \<lparr>my_work = w, sample = s,
                  rng_state = rng_state_at sp tile_x tile_y,
                  per_sample_output_buffers = buffer_at kd sp tile_x tile_y 0,
                  enqueue_flag = False\<rparr>)
      else
        (case c_sdiv ray_index (parallel_samples sp) of
           None \<Rightarrow> None
         | Some tile_index \<Rightarrow>
            (case c_smod tile_index (sw sp) of
               None \<Rightarrow> None
             | Some tile_x \<Rightarrow>
                (case c_sdiv tile_index (sw sp) of
                   None \<Rightarrow> None
                 | Some tile_y \<Rightarrow>
                     Some \<lparr>my_work = 0, sample = work_array st ray_index,
                           rng_state = rng_state_at sp tile_x tile_y,
                           per_sample_output_buffers =
                             buffer_at kd sp tile_x tile_y (ray_index - (tile_index * parallel_samples sp)),
                           enqueue_flag = False\<rparr>))))"

text \<open>Lines 166-184: a ray that hit the background.\<close>

definition hit_background ::
  "cfg \<Rightarrow> ('f, 'df, 'l, 'd, 'wp) ext \<Rightarrow> kernel_data \<Rightarrow> u32
   \<Rightarrow> ('f, 'df, 'l, 'd, 'wp) split_state \<Rightarrow> ('f, 'df, 'l, 'd, 'wp) split_state" where
  "hit_background c e kd ray_index st =
     (if IS_STATE (ray_state st) ray_index RAY_HIT_BACKGROUND then
        (let st1 =
           (if background_transparent kd \<noteq> 0
               \<and> (flag (path_state st ray_index) AND PATH_RAY_CAMERA e) \<noteq> 0 then
              (let st' = st\<lparr>L_transparent := (L_transparent st)
                             (ray_index := f_add e (L_transparent st ray_index)
                                                  (average e (throughput st ray_index)))\<rparr>
               in if PASSES c then
                    (if (film_pass_flag kd AND PASS_BACKGROUND e) = 0
                     then ASSIGN_RAY_STATE st' ray_index RAY_UPDATE_BUFFER else st')
                  else ASSIGN_RAY_STATE st' ray_index RAY_UPDATE_BUFFER)
            else st)
         in if IS_STATE (ray_state st1) ray_index RAY_HIT_BACKGROUND then
              (let st2 =
                 (if BACKGROUND c then
                    (let L_background = indirect_background e (path_state st1 ray_index) (ray st1 ray_index)
                     in st1\<lparr>path_radiance := (path_radiance st1)
                              (ray_index := path_radiance_accum_background e (path_radiance st1 ray_index)
                                   (throughput st1 ray_index) L_background
                                   (bounce (path_state st1 ray_index)))\<rparr>)
                  else st1)
               in ASSIGN_RAY_STATE st2 ray_index RAY_UPDATE_BUFFER)
            else st1)
      else st)"

text \<open>Lines 186-199: the accumulated radiance goes to the output buffer.\<close>

definition update_buffer ::
  "cfg \<Rightarrow> ('f, 'df, 'l, 'd, 'wp) ext \<Rightarrow> u32
   \<Rightarrow> ('f, 'df, 'l, 'd, 'wp) split_state \<Rightarrow> locals \<Rightarrow> ('f, 'df, 'l, 'd, 'wp) split_state" where
  "update_buffer c e ray_index st lc =
     (if IS_STATE (ray_state st) ray_index RAY_UPDATE_BUFFER then
        (let (L', L_sum) = path_radiance_clamp_and_sum e (path_radiance st ray_index);
             st1 = st\<lparr>path_radiance := (path_radiance st)(ray_index := L')\<rparr>;
             st2 = global_call st1 (kernel_write_light_passes (per_sample_output_buffers lc) L' (sample lc));
             st3 = (if KERNEL_DEBUG c then
                      global_call st2 (kernel_write_debug_passes (per_sample_output_buffers lc)
                          (path_state st2 ray_index) (debug_data st2 ray_index) (sample lc))
                    else st2);
             L_rad = (fst L_sum, fst (snd L_sum), snd (snd L_sum),
                      f_sub e (f_one e) (L_transparent st3 ray_index));
             st4 = global_call st3 (kernel_write_pass_float4 (per_sample_output_buffers lc) (sample lc) L_rad);
             st5 = global_call st4 (path_rng_end (rng_state lc) (rng st4 ray_index))
         in ASSIGN_RAY_STATE st5 ray_index RAY_TO_REGENERATE)
      else st)"

text \<open>Lines 202-213: is there more work for this slot?\<close>

definition claim_work ::
  "cfg \<Rightarrow> ('f, 'df, 'l, 'd, 'wp) ext \<Rightarrow> split_params \<Rightarrow> u32
   \<Rightarrow> ('f, 'df, 'l, 'd, 'wp) split_state \<Rightarrow> locals \<Rightarrow> ('f, 'df, 'l, 'd, 'wp) split_state \<times> locals" where
  "claim_work c e sp ray_index st lc =
     (if WORK_STEALING c then
        (let (valid_work, w, pool) =
                get_next_work e (work_pool_wgs st) (my_work lc) (sw sp) (sh sp) (num_samples sp)
                  (parallel_samples sp) ray_index;
             st1 = st\<lparr>work_pool_wgs := pool\<rparr>;
             lc1 = lc\<lparr>my_work := w\<rparr>
         in (if valid_work = 0 then ASSIGN_RAY_STATE st1 ray_index RAY_INACTIVE else st1, lc1))
      else
        (if end_sample sp \<le> sample lc + parallel_samples sp
         then ASSIGN_RAY_STATE st ray_index RAY_INACTIVE else st, lc))"

text \<open>Lines 216-236: the claimed work is recorded, and the sample, the pixel and the two
  buffer pointers are set for it. The result carries \<^verbatim>\<open>pixel_x\<close> and \<^verbatim>\<open>pixel_y\<close>.\<close>

definition remap_work ::
  "cfg \<Rightarrow> ('f, 'df, 'l, 'd, 'wp) ext \<Rightarrow> kernel_data \<Rightarrow> split_params \<Rightarrow> u32
   \<Rightarrow> ('f, 'df, 'l, 'd, 'wp) split_state \<Rightarrow> locals
   \<Rightarrow> (('f, 'df, 'l, 'd, 'wp) split_state \<times> locals \<times> u32 \<times> u32) option" where
  "remap_work c e kd sp ray_index st lc =
     (if WORK_STEALING c then
        (let st1 = st\<lparr>work_array := (work_array st)(ray_index := my_work lc)\<rparr>;
             s = get_my_sample e (my_work lc) (sw sp) (sh sp) (parallel_samples sp) ray_index
                   + start_sample sp;
             (pixel_x, pixel_y, tile_x, tile_y) =
                get_pixel_tile_position e (my_work lc) (sw sp) (sh sp) (sx sp) (sy sp)
                  (parallel_samples sp) ray_index
         in Some (st1,
                  lc\<lparr>sample := s, rng_state := rng_state_at sp tile_x tile_y,
                     per_sample_output_buffers := buffer_at kd sp tile_x tile_y 0\<rparr>,
                  pixel_x, pixel_y))
      else
        (let st1 = st\<lparr>work_array := (work_array st)(ray_index := sample lc + parallel_samples sp)\<rparr>;
             lc1 = lc\<lparr>sample := work_array st1 ray_index\<rparr>
         in case c_sdiv ray_index (parallel_samples sp) of
              None \<Rightarrow> None
            | Some q \<Rightarrow>
               (case c_smod q (sw sp) of
                  None \<Rightarrow> None
                | Some qx \<Rightarrow>
                   (case c_sdiv q (sw sp) of
                      None \<Rightarrow> None
                    | Some qy \<Rightarrow> Some (st1, lc1, sx sp + qx, sy sp + qy)))))"

text \<open>Lines 238-263: the camera ray of the claimed work; a ray of length zero gives a
  zero contribution.\<close>

definition regenerate ::
  "cfg \<Rightarrow> ('f, 'df, 'l, 'd, 'wp) ext \<Rightarrow> kernel_data \<Rightarrow> u32
   \<Rightarrow> ('f, 'df, 'l, 'd, 'wp) split_state \<Rightarrow> locals \<Rightarrow> u32 \<Rightarrow> u32
   \<Rightarrow> ('f, 'df, 'l, 'd, 'wp) split_state \<times> locals" where
  "regenerate c e kd ray_index st lc pixel_x pixel_y =
     (let (rng', ray') = kernel_path_trace_setup e (global_writes st) (rng_state lc) (sample lc)
                            pixel_x pixel_y (rng st ray_index) (ray st ray_index);
          st1 = st\<lparr>rng := (rng st)(ray_index := rng'), ray := (ray st)(ray_index := ray')\<rparr>
      in if f_neq e (Ray_t (ray st1 ray_index)) (f_zero e) then
           (let st2 = st1\<lparr>throughput := (throughput st1)(ray_index := (f_one e, f_one e, f_one e))\<rparr>;
                st3 = st2\<lparr>L_transparent := (L_transparent st2)(ray_index := f_zero e)\<rparr>;
                st4 = st3\<lparr>path_radiance := (path_radiance st3)
                          (ray_index := path_radiance_init e (path_radiance st3 ray_index)
                                          (film_use_light_pass kd))\<rparr>;
                st5 = st4\<lparr>path_state := (path_state st4)
                          (ray_index := path_state_init e (path_state st4 ray_index)
                                          (rng st4 ray_index) (sample lc) (ray st4 ray_index))\<rparr>;
                st6 = (if KERNEL_DEBUG c then
                         st5\<lparr>debug_data := (debug_data st5)
                               (ray_index := debug_data_init e (debug_data st5 ray_index))\<rparr>
                       else st5)
            in (ASSIGN_RAY_STATE st6 ray_index RAY_REGENERATED, lc\<lparr>enqueue_flag := True\<rparr>))
         else
           (let L_rad = (f_zero e, f_zero e, f_zero e, f_zero e);
                st2 = global_call st1 (kernel_write_pass_float4 (per_sample_output_buffers lc) (sample lc) L_rad);
                st3 = global_call st2 (path_rng_end (rng_state lc) (rng st2 ray_index))
            in (ASSIGN_RAY_STATE st3 ray_index RAY_TO_REGENERATE, lc)))"

text \<open>Lines 201-265.\<close>

definition to_regenerate ::
  "cfg \<Rightarrow> ('f, 'df, 'l, 'd, 'wp) ext \<Rightarrow> kernel_data \<Rightarrow> split_params \<Rightarrow> u32
   \<Rightarrow> ('f, 'df, 'l, 'd, 'wp) split_state \<Rightarrow> locals
   \<Rightarrow> (('f, 'df, 'l, 'd, 'wp) split_state \<times> locals) option" where
  "to_regenerate c e kd sp ray_index st lc =
     (if IS_STATE (ray_state st) ray_index RAY_TO_REGENERATE then
        (let (st1, lc1) = claim_work c e sp ray_index st lc
         in if IS_STATE (ray_state st1) ray_index RAY_TO_REGENERATE then
              (case remap_work c e kd sp ray_index st1 lc1 of
                 None \<Rightarrow> None
               | Some (st2, lc2, pixel_x, pixel_y) \<Rightarrow>
                   Some (regenerate c e kd ray_index st2 lc2 pixel_x pixel_y))
            else Some (st1, lc1))
      else Some (st, lc))"

text \<open>Lines 109-265: what the kernel does for the slot it took from its queue.\<close>

definition body ::
  "cfg \<Rightarrow> ('f, 'df, 'l, 'd, 'wp) ext \<Rightarrow> kernel_data \<Rightarrow> split_params \<Rightarrow> u32
   \<Rightarrow> ('f, 'df, 'l, 'd, 'wp) split_state
   \<Rightarrow> (('f, 'df, 'l, 'd, 'wp) split_state \<times> locals) option" where
  "body c e kd sp ray_index st =
     (case prologue c e kd sp ray_index st of
        None \<Rightarrow> None
      | Some lc \<Rightarrow>
          (let st1 = hit_background c e kd ray_index st;
               st2 = update_buffer c e ray_index st1 lc
           in to_regenerate c e kd sp ray_index st2 lc))"

text \<open>The kernel, for one lane. On a GPU a lane without a slot returns at once; on a CPU
  it goes on to the enqueue with a zero flag.\<close>

definition kernel_background_buffer_update ::
  "cfg \<Rightarrow> ('f, 'df, 'l, 'd, 'wp) ext \<Rightarrow> kernel_data \<Rightarrow> split_params \<Rightarrow> lane
   \<Rightarrow> ('f, 'df, 'l, 'd, 'wp) split_state \<Rightarrow> ('f, 'df, 'l, 'd, 'wp) split_state option" where
  "kernel_background_buffer_update c e kd sp ln st =
     (let thread_index = global_id1 ln * global_size0 ln + global_id0 ln;
          st1 = (if thread_index = 0
                 then st\<lparr>queue_index := (queue_index st)(QUEUE_HITBG_BUFF_UPDATE_TOREGEN_RAYS := 0)\<rparr>
                 else st);
          (ray_index, qd) = get_ray_index e thread_index QUEUE_HITBG_BUFF_UPDATE_TOREGEN_RAYS
                               (queue_data st1) (queue_size sp) 1;
          st2 = st1\<lparr>queue_data := qd\<rparr>
      in if ray_index = QUEUE_EMPTY_SLOT e then
           (if COMPUTE_DEVICE_GPU c then Some st2
            else Some (enqueue_ray_index_local ray_index QUEUE_ACTIVE_AND_REGENERATED_RAYS False st2))
         else
           (case body c e kd sp ray_index st2 of
              None \<Rightarrow> None
            | Some (st3, lc) \<Rightarrow>
                Some (enqueue_ray_index_local ray_index QUEUE_ACTIVE_AND_REGENERATED_RAYS
                        (enqueue_flag lc) st3)))"

subsection \<open>\<^verbatim>\<open>kernel_lamp_emission\<close>\<close>

text \<open>\<^verbatim>\<open>ray.P - state->ray_t*ray.D\<close> on the components.\<close>

definition light_ray_P :: "('f, 'df, 'l, 'd, 'wp) ext \<Rightarrow> 'f float3 \<Rightarrow> 'f \<Rightarrow> 'f float3 \<Rightarrow> 'f float3" where
  "light_ray_P e p tt d =
     (f_sub e (fst p) (f_mul e tt (fst d)),
      f_sub e (fst (snd p)) (f_mul e tt (fst (snd d))),
      f_sub e (snd (snd p)) (f_mul e tt (snd (snd d))))"

text \<open>Lines 74-103.\<close>

definition lamp_body ::
  "cfg \<Rightarrow> ('f, 'df, 'l, 'd, 'wp) ext \<Rightarrow> kernel_data \<Rightarrow> u32
   \<Rightarrow> ('f, 'df, 'l, 'd, 'wp) split_state \<Rightarrow> ('f, 'df, 'l, 'd, 'wp) split_state" where
  "lamp_body c e kd ray_index st =
     (if IS_STATE (ray_state st) ray_index RAY_ACTIVE
         \<or> IS_STATE (ray_state st) ray_index RAY_HIT_BACKGROUND then
        (if LAMP_MIS c then
           (if integrator_use_lamp_mis kd \<noteq> 0
               \<and> (flag (path_state st ray_index) AND PATH_RAY_CAMERA e) = 0 then
              (let tp = throughput st ray_index;
                   ry = ray st ray_index;
                   p = light_ray_P e (Ray_P ry) (ray_t (path_state st ray_index)) (Ray_D ry);
                   st1 = st\<lparr>path_state := (path_state st)
                            (ray_index := (path_state st ray_index)
                               \<lparr>ray_t := f_add e (ray_t (path_state st ray_index)) (isect_t st ray_index)\<rparr>)\<rparr>;
                   light_ray = \<lparr>Ray_P = p, Ray_D = Ray_D ry, Ray_t = ray_t (path_state st1 ray_index),
                                Ray_time = Ray_time ry, Ray_dP = Ray_dP ry, Ray_dD = Ray_dD ry\<rparr>
               in case indirect_lamp_emission e (path_state st1 ray_index) light_ray of
                    Some emission \<Rightarrow>
                      st1\<lparr>path_radiance := (path_radiance st1)
                            (ray_index := path_radiance_accum_emission e (path_radiance st1 ray_index)
                                 tp emission (bounce (path_state st1 ray_index)))\<rparr>
                  | None \<Rightarrow> st1)
            else st)
         else st)
      else st)"

text \<open>The kernel, for one lane.\<close>

definition kernel_lamp_emission ::
  "cfg \<Rightarrow> ('f, 'df, 'l, 'd, 'wp) ext \<Rightarrow> kernel_data \<Rightarrow> split_params \<Rightarrow> lane
   \<Rightarrow> ('f, 'df, 'l, 'd, 'wp) split_state \<Rightarrow> ('f, 'df, 'l, 'd, 'wp) split_state" where
  "kernel_lamp_emission c e kd sp ln st =
     (let x = global_id0 ln;
          y = global_id1 ln;
          st1 = (if global_id0 ln = 0 \<and> global_id1 ln = 0
                 then st\<lparr>queue_index := (queue_index st)(QUEUE_ACTIVE_AND_REGENERATED_RAYS := 0)\<rparr>
                 else st);
          local_use_queues_flag = use_queues_flag sp
      in if local_use_queues_flag \<noteq> 0 then
           (let thread_index = global_id1 ln * global_size0 ln + global_id0 ln;
                (ray_index, qd) = get_ray_index e thread_index QUEUE_ACTIVE_AND_REGENERATED_RAYS
                                     (queue_data st1) (queue_size sp) 1;
                st2 = st1\<lparr>queue_data := qd\<rparr>
            in if ray_index = QUEUE_EMPTY_SLOT e then st2
               else lamp_body c e kd ray_index st2)
         else
           (if x <s (sw sp * parallel_samples sp) \<and> y <s sh sp then
              lamp_body c e kd (x + y * (sw sp * parallel_samples sp)) st1
            else st1))"

subsection \<open>Notions used in the statements\<close>

text \<open>The test of lines 205 and 210: the work distributor has nothing more for the slot.\<close>

definition no_work ::
  "cfg \<Rightarrow> ('f, 'df, 'l, 'd, 'wp) ext \<Rightarrow> split_params \<Rightarrow> u32
   \<Rightarrow> ('f, 'df, 'l, 'd, 'wp) split_state \<Rightarrow> locals \<Rightarrow> bool" where
  "no_work c e sp ray_index st lc =
     (if WORK_STEALING c then
        fst (get_next_work e (work_pool_wgs st) (my_work lc) (sw sp) (sh sp) (num_samples sp)
               (parallel_samples sp) ray_index) = 0
      else end_sample sp \<le> sample lc + parallel_samples sp)"

text \<open>The three divisions of the build without work stealing (lines 156-159 and 234-235) are
  defined. The build with work stealing has no division of its own.\<close>

definition divisions_defined :: "cfg \<Rightarrow> split_params \<Rightarrow> u32 \<Rightarrow> bool" where
  "divisions_defined c sp ray_index =
     (if WORK_STEALING c then True
      else (case c_sdiv ray_index (parallel_samples sp) of
              None \<Rightarrow> False
            | Some q \<Rightarrow> c_smod q (sw sp) \<noteq> None \<and> c_sdiv q (sw sp) \<noteq> None))"

text \<open>The test of line 168, and the test of line 171 that is compiled in with
  \<^verbatim>\<open>__PASSES__\<close>, read as: the background pass is requested.\<close>

definition transparent_camera :: "('f, 'df, 'l, 'd, 'wp) ext \<Rightarrow> kernel_data \<Rightarrow> 'f PathState \<Rightarrow> bool" where
  "transparent_camera e kd ps =
     (background_transparent kd \<noteq> 0 \<and> (flag ps AND PATH_RAY_CAMERA e) \<noteq> 0)"

definition background_pass :: "cfg \<Rightarrow> ('f, 'df, 'l, 'd, 'wp) ext \<Rightarrow> kernel_data \<Rightarrow> bool" where
  "background_pass c e kd = (PASSES c \<and> (film_pass_flag kd AND PASS_BACKGROUND e) \<noteq> 0)"

text \<open>The value that lines 179-180 store in the radiance accumulator.\<close>

definition background_fold ::
  "('f, 'df, 'l, 'd, 'wp) ext \<Rightarrow> ('f, 'df, 'l, 'd, 'wp) split_state \<Rightarrow> u32 \<Rightarrow> 'l" where
  "background_fold e st i =
     path_radiance_accum_background e (path_radiance st i) (throughput st i)
       (indirect_background e (path_state st i) (ray st i)) (bounce (path_state st i))"

text \<open>The calls and the state assignments made between two states, and the calls of a
  kind among them.\<close>

definition new_calls ::
  "('f, 'df, 'l, 'd, 'wp) split_state \<Rightarrow> ('f, 'df, 'l, 'd, 'wp) split_state \<Rightarrow> ('f, 'l, 'd) call list" where
  "new_calls st st' = drop (length (global_writes st)) (global_writes st')"

definition new_assigned ::
  "('f, 'df, 'l, 'd, 'wp) split_state \<Rightarrow> ('f, 'df, 'l, 'd, 'wp) split_state \<Rightarrow> (u32 \<times> ray_state_t) list" where
  "new_assigned st st' = drop (length (assigned st)) (assigned st')"



text \<open>The last two calls are a four-channel write of zeros and the end of the random number
  stream.\<close>

fun zero_write_then_rng_end :: "('f, 'df, 'l, 'd, 'wp) ext \<Rightarrow> ('f, 'l, 'd) call list \<Rightarrow> bool" where
  "zero_write_then_rng_end e (path_rng_end r g # kernel_write_pass_float4 b s v # cs) =
     (v = (f_zero e, f_zero e, f_zero e, f_zero e))"
| "zero_write_then_rng_end e cs = False"

definition ends_with_zero_write :: "('f, 'df, 'l, 'd, 'wp) ext \<Rightarrow> ('f, 'l, 'd) call list \<Rightarrow> bool" where
  "ends_with_zero_write e cs = zero_write_then_rng_end e (rev cs)"

text \<open>Lines 55-72 of \<^verbatim>\<open>kernel_lamp_emission\<close>: the slot that the lane works on, if any.\<close>

definition lamp_ray_index ::
  "('f, 'df, 'l, 'd, 'wp) ext \<Rightarrow> split_params \<Rightarrow> lane \<Rightarrow> ('f, 'df, 'l, 'd, 'wp) split_state
   \<Rightarrow> u32 option" where
  "lamp_ray_index e sp ln st =
     (if use_queues_flag sp \<noteq> 0 then
        (let ray_index = fst (get_ray_index e (global_id1 ln * global_size0 ln + global_id0 ln)
                                QUEUE_ACTIVE_AND_REGENERATED_RAYS (queue_data st) (queue_size sp) 1)
         in if ray_index = QUEUE_EMPTY_SLOT e then None else Some ray_index)
      else if global_id0 ln <s (sw sp * parallel_samples sp) \<and> global_id1 ln <s sh sp
           then Some (global_id0 ln + global_id1 ln * (sw sp * parallel_samples sp))
           else None)"

text \<open>The tests of lines 74-75 and 84, with \<^verbatim>\<open>__LAMP_MIS__\<close> compiled in: the slot is
  handled by lines 85-100.\<close>

definition lamp_mis_applies ::
  "cfg \<Rightarrow> ('f, 'df, 'l, 'd, 'wp) ext \<Rightarrow> kernel_data \<Rightarrow> ('f, 'df, 'l, 'd, 'wp) split_state
   \<Rightarrow> u32 \<Rightarrow> bool" where
  "lamp_mis_applies c e kd st i =
     ((ray_state st i = RAY_ACTIVE \<or> ray_state st i = RAY_HIT_BACKGROUND)
      \<and> LAMP_MIS c
      \<and> integrator_use_lamp_mis kd \<noteq> 0
      \<and> (flag (path_state st i) AND PATH_RAY_CAMERA e) = 0)"

text \<open>The path state after line 89, the ray of lines 86-94, and the radiance accumulator
  after lines 98-100.\<close>

definition lamp_path_state ::
  "('f, 'df, 'l, 'd, 'wp) ext \<Rightarrow> ('f, 'df, 'l, 'd, 'wp) split_state \<Rightarrow> u32 \<Rightarrow> 'f PathState" where
  "lamp_path_state e st i =
     (path_state st i)\<lparr>ray_t := f_add e (ray_t (path_state st i)) (isect_t st i)\<rparr>"

definition lamp_light_ray ::
  "('f, 'df, 'l, 'd, 'wp) ext \<Rightarrow> ('f, 'df, 'l, 'd, 'wp) split_state \<Rightarrow> u32 \<Rightarrow> ('f, 'df) Ray" where
  "lamp_light_ray e st i =
     \<lparr>Ray_P = light_ray_P e (Ray_P (ray st i)) (ray_t (path_state st i)) (Ray_D (ray st i)),
      Ray_D = Ray_D (ray st i),
      Ray_t = f_add e (ray_t (path_state st i)) (isect_t st i),
      Ray_time = Ray_time (ray st i),
      Ray_dP = Ray_dP (ray st i),
      Ray_dD = Ray_dD (ray st i)\<rparr>"

definition lamp_radiance ::
  "('f, 'df, 'l, 'd, 'wp) ext \<Rightarrow> ('f, 'df, 'l, 'd, 'wp) split_state \<Rightarrow> u32 \<Rightarrow> 'l" where
  "lamp_radiance e st i =
     (case indirect_lamp_emission e (lamp_path_state e st i) (lamp_light_ray e st i) of
        Some emission \<Rightarrow>
          path_radiance_accum_emission e (path_radiance st i) (throughput st i) emission
            (bounce (path_state st i))
      | None \<Rightarrow> path_radiance st i)"

subsection \<open>Concrete inputs\<close>

text \<open>Collaborators over integers in place of floats. The camera ray of an even sample has
  length zero, that of an odd sample length one; the work pool is a counter.\<close>

definition ext_ex :: "(int, unit, int, unit, u32) ext" where
  "ext_ex =
     \<lparr>QUEUE_EMPTY_SLOT = - 1, PATH_RAY_CAMERA = 1, PASS_BACKGROUND = 2,
      f_zero = 0, f_one = 1,
      f_add = (\<lambda>a b. a + b), f_sub = (\<lambda>a b. a - b), f_mul = (\<lambda>a b. a * b),
      f_neq = (\<lambda>a b. a \<noteq> b),
      average = (\<lambda>v. (fst v + fst (snd v) + snd (snd v)) div 3),
      get_ray_index = (\<lambda>thread_index q qd size emp. (qd q thread_index, qd)),
      get_my_sample = (\<lambda>w a b p i. w),
      get_pixel_tile_position = (\<lambda>w a b x y p i. (x, y, 0, 0)),
      get_next_work = (\<lambda>pool w a b n p i. (if pool < n then 1 else 0, pool, pool + 1)),
      indirect_background = (\<lambda>ps r. (1, 1, 1)),
      path_radiance_accum_background = (\<lambda>l tp bg b. l + fst tp * fst bg),
      path_radiance_clamp_and_sum = (\<lambda>l. (l, l, l, l)),
      kernel_path_trace_setup =
        (\<lambda>gw off s x y r ry. (r + 1, ry\<lparr>Ray_t := (if s AND 1 = 0 then 0 else 1)\<rparr>)),
      path_radiance_init = (\<lambda>l u. 0),
      path_state_init_fields = (\<lambda>ps r s ry. \<lparr>flag = 1, bounce = 7, ray_t = 0\<rparr>),
      debug_data_init = (\<lambda>d. d),
      indirect_lamp_emission = (\<lambda>ps r. Some (1, 1, 1)),
      path_radiance_accum_emission = (\<lambda>l tp em b. l + fst tp * fst em)\<rparr>"

definition cfg_static :: cfg where
  "cfg_static = \<lparr>WORK_STEALING = False, PASSES = True, BACKGROUND = True, KERNEL_DEBUG = False,
                 COMPUTE_DEVICE_GPU = True, LAMP_MIS = True\<rparr>"

definition cfg_steal :: cfg where
  "cfg_steal = cfg_static\<lparr>WORK_STEALING := True\<rparr>"

definition kd_ex :: kernel_data where
  "kd_ex = \<lparr>background_transparent = 0, film_pass_flag = 0, film_pass_stride = 4,
            film_use_light_pass = 0, integrator_use_lamp_mis = 1\<rparr>"

definition kd_transparent :: kernel_data where
  "kd_transparent = kd_ex\<lparr>background_transparent := 1\<rparr>"

definition kd_bgpass :: kernel_data where
  "kd_bgpass = kd_ex\<lparr>background_transparent := 1, film_pass_flag := 2\<rparr>"

definition sp_ex :: split_params where
  "sp_ex = \<lparr>sw = 2, sh = 2, sx = 0, sy = 0, stride = 2, rng_offset_x = 0, rng_offset_y = 0,
            rng_stride = 2, parallel_samples = 1, start_sample = 0, end_sample = 10,
            num_samples = 10, queue_size = 4, use_queues_flag = 1\<rparr>"

text \<open>A state whose slots all carry the tag \<open>s\<close> and the work value \<open>w\<close>, on camera
  paths; \<open>st_indirect\<close> has paths after a bounce instead.\<close>

definition st_ex :: "ray_state_t \<Rightarrow> u32 \<Rightarrow> (int, unit, int, unit, u32) split_state" where
  "st_ex s w =
     \<lparr>ray_state = (\<lambda>i. s),
      path_state = (\<lambda>i. \<lparr>flag = 1, bounce = 0, ray_t = 4\<rparr>),
      path_radiance = (\<lambda>i. 5),
      ray = (\<lambda>i. \<lparr>Ray_P = (0, 0, 0), Ray_D = (0, 0, 1), Ray_t = 9, Ray_time = 0,
                  Ray_dP = (), Ray_dD = ()\<rparr>),
      throughput = (\<lambda>i. (3, 3, 3)),
      L_transparent = (\<lambda>i. 0),
      rng = (\<lambda>i. 0),
      work_array = (\<lambda>i. w),
      debug_data = (\<lambda>i. ()),
      isect_t = (\<lambda>i. 2),
      queue_data = (\<lambda>q k. k),
      queue_index = (\<lambda>q. 3),
      work_pool_wgs = 0,
      global_writes = [],
      assigned = []\<rparr>"

definition st_indirect :: "(int, unit, int, unit, u32) split_state" where
  "st_indirect = (st_ex RAY_ACTIVE 0)\<lparr>path_state := (\<lambda>i. \<lparr>flag = 0, bounce = 1, ray_t = 4\<rparr>)\<rparr>"

definition lc_ex :: "u32 \<Rightarrow> locals" where
  "lc_ex s = \<lparr>my_work = 0, sample = s, rng_state = 0, per_sample_output_buffers = 0,
              enqueue_flag = False\<rparr>"

definition ln_ex :: lane where
  "ln_ex = \<lparr>global_id0 = 0, global_id1 = 0, global_size0 = 4\<rparr>"

lemmas ex_defs = ext_ex_def cfg_static_def cfg_steal_def kd_ex_def sp_ex_def st_ex_def lc_ex_def
  ln_ex_def kd_transparent_def kd_bgpass_def st_indirect_def

lemmas eval_defs = to_regenerate_def claim_work_def remap_work_def regenerate_def
  no_work_def IS_STATE_def ASSIGN_RAY_STATE_def global_call_def path_state_init_def
  enqueue_ray_index_local_def c_sdiv_def c_smod_def word_le_nat_alt word_less_nat_alt
  signed_divide_int_def signed_modulo_int_def divisions_defined_def new_calls_def
  new_assigned_def

subsection \<open>The blocks of \<^verbatim>\<open>kernel_background_buffer_update\<close>, one at a time\<close>

lemma hit_background_state:
  "ray_state (hit_background c e kd i st) i =
     (if ray_state st i = RAY_HIT_BACKGROUND then RAY_UPDATE_BUFFER else ray_state st i)"
  by (simp add: hit_background_def IS_STATE_def ASSIGN_RAY_STATE_def Let_def)

lemma update_buffer_state:
  "ray_state (update_buffer c e i st lc) i =
     (if ray_state st i = RAY_UPDATE_BUFFER then RAY_TO_REGENERATE else ray_state st i)"
  by (simp add: update_buffer_def IS_STATE_def ASSIGN_RAY_STATE_def global_call_def Let_def
      case_prod_beta)

lemma prologue_enqueue_flag:
  "prologue c e kd sp i st = Some lc \<Longrightarrow> \<not> enqueue_flag lc"
  by (auto simp add: prologue_def Let_def case_prod_beta split: option.splits if_splits)

lemma prologue_defined:
  assumes "divisions_defined c sp i"
  shows "\<exists>lc. prologue c e kd sp i st = Some lc"
  using assms
  by (auto simp add: prologue_def divisions_defined_def Let_def case_prod_beta
      split: option.splits if_splits)

lemma claim_work_state:
  "ray_state (fst (claim_work c e sp i st lc)) =
     (if no_work c e sp i st lc then (ray_state st)(i := RAY_INACTIVE) else ray_state st)"
  "assigned (fst (claim_work c e sp i st lc)) =
     (if no_work c e sp i st lc then assigned st @ [(i, RAY_INACTIVE)] else assigned st)"
  by (simp_all add: claim_work_def no_work_def ASSIGN_RAY_STATE_def Let_def case_prod_beta)

lemma claim_work_frame:
  "queue_data (fst (claim_work c e sp i st lc)) = queue_data st"
  "queue_index (fst (claim_work c e sp i st lc)) = queue_index st"
  "global_writes (fst (claim_work c e sp i st lc)) = global_writes st"
  "work_array (fst (claim_work c e sp i st lc)) = work_array st"
  "rng (fst (claim_work c e sp i st lc)) = rng st"
  "ray (fst (claim_work c e sp i st lc)) = ray st"
  "enqueue_flag (snd (claim_work c e sp i st lc)) = enqueue_flag lc"
  "sample (snd (claim_work c e sp i st lc)) = sample lc"
  "rng_state (snd (claim_work c e sp i st lc)) = rng_state lc"
  "per_sample_output_buffers (snd (claim_work c e sp i st lc)) = per_sample_output_buffers lc"
  by (simp_all add: claim_work_def ASSIGN_RAY_STATE_def Let_def case_prod_beta)


lemma remap_work_defined:
  assumes "divisions_defined c sp i"
  shows "\<exists>lc2 px py.
           remap_work c e kd sp i st lc =
             Some (st\<lparr>work_array := (work_array st)
                        (i := if WORK_STEALING c then my_work lc
                              else sample lc + parallel_samples sp)\<rparr>, lc2, px, py)
         \<and> enqueue_flag lc2 = enqueue_flag lc
         \<and> sample lc2 =
             (if WORK_STEALING c
              then get_my_sample e (my_work lc) (sw sp) (sh sp) (parallel_samples sp) i
                     + start_sample sp
              else sample lc + parallel_samples sp)
         \<and> per_sample_output_buffers lc2 =
             (if WORK_STEALING c
              then (case get_pixel_tile_position e (my_work lc) (sw sp) (sh sp) (sx sp) (sy sp)
                           (parallel_samples sp) i of
                      (pixel_x, pixel_y, tile_x, tile_y) \<Rightarrow> buffer_at kd sp tile_x tile_y 0)
              else per_sample_output_buffers lc)"
  using assms
  by (auto simp add: remap_work_def divisions_defined_def Let_def
      split: prod.splits option.splits if_splits)

lemma to_regenerate_unfold:
  assumes "ray_state st i = RAY_TO_REGENERATE"
  shows "to_regenerate c e kd sp i st lc =
           (if no_work c e sp i st lc then Some (claim_work c e sp i st lc)
            else (case remap_work c e kd sp i (fst (claim_work c e sp i st lc))
                         (snd (claim_work c e sp i st lc)) of
                    None \<Rightarrow> None
                  | Some (st2, lc2, pixel_x, pixel_y) \<Rightarrow>
                      Some (regenerate c e kd i st2 lc2 pixel_x pixel_y)))"
  using assms
  by (simp add: to_regenerate_def IS_STATE_def claim_work_state case_prod_beta)

lemma regenerate_ray:
  "ray (fst (regenerate c e kd i st lc px py)) i =
     snd (kernel_path_trace_setup e (global_writes st) (rng_state lc) (sample lc) px py
            (rng st i) (ray st i))"
  "rng (fst (regenerate c e kd i st lc px py)) i =
     fst (kernel_path_trace_setup e (global_writes st) (rng_state lc) (sample lc) px py
            (rng st i) (ray st i))"
  by (simp_all add: regenerate_def ASSIGN_RAY_STATE_def global_call_def Let_def case_prod_beta)

lemma regenerate_frame:
  "queue_data (fst (regenerate c e kd i st lc px py)) = queue_data st"
  "queue_index (fst (regenerate c e kd i st lc px py)) = queue_index st"
  "work_array (fst (regenerate c e kd i st lc px py)) = work_array st"
  "work_pool_wgs (fst (regenerate c e kd i st lc px py)) = work_pool_wgs st"
  "sample (snd (regenerate c e kd i st lc px py)) = sample lc"
  "rng_state (snd (regenerate c e kd i st lc px py)) = rng_state lc"
  "per_sample_output_buffers (snd (regenerate c e kd i st lc px py)) = per_sample_output_buffers lc"
  by (simp_all add: regenerate_def ASSIGN_RAY_STATE_def global_call_def Let_def case_prod_beta)

lemma regenerate_valid:
  assumes "f_neq e (Ray_t (snd (kernel_path_trace_setup e (global_writes st) (rng_state lc)
                     (sample lc) px py (rng st i) (ray st i)))) (f_zero e)"
  shows "ray_state (fst (regenerate c e kd i st lc px py)) = (ray_state st)(i := RAY_REGENERATED)"
    and "assigned (fst (regenerate c e kd i st lc px py)) = assigned st @ [(i, RAY_REGENERATED)]"
    and "global_writes (fst (regenerate c e kd i st lc px py)) = global_writes st"
    and "throughput (fst (regenerate c e kd i st lc px py)) i = (f_one e, f_one e, f_one e)"
    and "L_transparent (fst (regenerate c e kd i st lc px py)) i = f_zero e"
    and "bounce (path_state (fst (regenerate c e kd i st lc px py)) i) = 0"
    and "enqueue_flag (snd (regenerate c e kd i st lc px py))"
  using assms
  by (simp_all add: regenerate_def ASSIGN_RAY_STATE_def global_call_def path_state_init_def Let_def
      case_prod_beta)

lemma regenerate_degenerate:
  assumes "\<not> f_neq e (Ray_t (snd (kernel_path_trace_setup e (global_writes st) (rng_state lc)
                     (sample lc) px py (rng st i) (ray st i)))) (f_zero e)"
  shows "ray_state (fst (regenerate c e kd i st lc px py)) = (ray_state st)(i := RAY_TO_REGENERATE)"
    and "assigned (fst (regenerate c e kd i st lc px py)) = assigned st @ [(i, RAY_TO_REGENERATE)]"
    and "global_writes (fst (regenerate c e kd i st lc px py)) =
           global_writes st @
             [kernel_write_pass_float4 (per_sample_output_buffers lc) (sample lc)
                (f_zero e, f_zero e, f_zero e, f_zero e),
              path_rng_end (rng_state lc) (rng (fst (regenerate c e kd i st lc px py)) i)]"
    and "snd (regenerate c e kd i st lc px py) = lc"
  using assms
  by (simp_all add: regenerate_def ASSIGN_RAY_STATE_def global_call_def Let_def case_prod_beta)

lemma ends_with_zero_write_append:
  "ends_with_zero_write e
     (cs @ [kernel_write_pass_float4 b s (f_zero e, f_zero e, f_zero e, f_zero e), path_rng_end r g])"
  by (simp add: ends_with_zero_write_def)

lemma to_regenerate_final:
  assumes tr: "ray_state st i = RAY_TO_REGENERATE"
    and dd: "divisions_defined c sp i"
  shows "\<exists>st' lc'. to_regenerate c e kd sp i st lc = Some (st', lc')
           \<and> ray_state st' i \<in> {RAY_TO_REGENERATE, RAY_REGENERATED, RAY_INACTIVE}
           \<and> (ray_state st' i = RAY_TO_REGENERATE \<longrightarrow>
                \<not> f_neq e (Ray_t (ray st' i)) (f_zero e)
                \<and> ends_with_zero_write e (global_writes st'))"
proof (cases "no_work c e sp i st lc")
  case True
  obtain s1 l1 where cw: "claim_work c e sp i st lc = (s1, l1)"
    by (cases "claim_work c e sp i st lc")
  have "to_regenerate c e kd sp i st lc = Some (s1, l1)"
    using True by (simp add: to_regenerate_unfold [OF tr] cw)
  moreover have "ray_state s1 i = RAY_INACTIVE"
    using True claim_work_state(1) [of c e sp i st lc] by (simp add: cw)
  ultimately show ?thesis by simp
next
  case False
  let ?st1 = "fst (claim_work c e sp i st lc)"
  let ?lc1 = "snd (claim_work c e sp i st lc)"
  from remap_work_defined [OF dd, of e kd ?st1 ?lc1]
  obtain st2 lc2 px py where
    rm: "remap_work c e kd sp i ?st1 ?lc1 = Some (st2, lc2, px, py)"
    by blast
  obtain s3 l3 where rg: "regenerate c e kd i st2 lc2 px py = (s3, l3)"
    by (cases "regenerate c e kd i st2 lc2 px py")
  have eq: "to_regenerate c e kd sp i st lc = Some (s3, l3)"
    using False by (simp add: to_regenerate_unfold [OF tr] rm rg)
  have s3: "s3 = fst (regenerate c e kd i st2 lc2 px py)" by (simp add: rg)
  show ?thesis
  proof (cases "f_neq e (Ray_t (ray s3 i)) (f_zero e)")
    case True
    note v = True [unfolded s3 regenerate_ray]
    have "ray_state s3 i = RAY_REGENERATED"
      unfolding s3 by (simp add: regenerate_valid [OF v])
    with eq show ?thesis by simp
  next
    case False
    note d = False [unfolded s3 regenerate_ray]
    have "ray_state s3 i = RAY_TO_REGENERATE"
      and "ends_with_zero_write e (global_writes s3)"
      unfolding s3 by (simp_all add: regenerate_degenerate [OF d] ends_with_zero_write_append)
    with eq False show ?thesis by simp
  qed
qed

lemma body_final:
  assumes inq: "ray_state st i \<in> {RAY_HIT_BACKGROUND, RAY_UPDATE_BUFFER, RAY_TO_REGENERATE}"
    and dd: "divisions_defined c sp i"
  shows "\<exists>st' lc'. body c e kd sp i st = Some (st', lc')
           \<and> ray_state st' i \<in> {RAY_TO_REGENERATE, RAY_REGENERATED, RAY_INACTIVE}
           \<and> (ray_state st' i = RAY_TO_REGENERATE \<longrightarrow>
                \<not> f_neq e (Ray_t (ray st' i)) (f_zero e)
                \<and> ends_with_zero_write e (global_writes st'))"
proof -
  from prologue_defined [OF dd] obtain lc where pl: "prologue c e kd sp i st = Some lc"
    by blast
  let ?st2 = "update_buffer c e i (hit_background c e kd i st) lc"
  have tr: "ray_state ?st2 i = RAY_TO_REGENERATE"
    using inq by (auto simp add: update_buffer_state hit_background_state)
  have "body c e kd sp i st = to_regenerate c e kd sp i ?st2 lc"
    by (simp add: body_def pl)
  with to_regenerate_final [OF tr dd, of e kd lc] show ?thesis by simp
qed

lemma enqueue_ray_index_local_frame:
  "ray_state (enqueue_ray_index_local i q f st) = ray_state st"
  "ray (enqueue_ray_index_local i q f st) = ray st"
  "global_writes (enqueue_ray_index_local i q f st) = global_writes st"
  by (simp_all add: enqueue_ray_index_local_def)

subsection \<open>\<^verbatim>\<open>kernel_lamp_emission\<close>, field by field\<close>

lemma lamp_body_frame:
  "ray_state (lamp_body c e kd i st) = ray_state st"
  "assigned (lamp_body c e kd i st) = assigned st"
  "queue_index (lamp_body c e kd i st) = queue_index st"
  "queue_data (lamp_body c e kd i st) = queue_data st"
  "flag (path_state (lamp_body c e kd i st) j) = flag (path_state st j)"
  "bounce (path_state (lamp_body c e kd i st) j) = bounce (path_state st j)"
  "throughput (lamp_body c e kd i st) = throughput st"
  "L_transparent (lamp_body c e kd i st) = L_transparent st"
  "ray (lamp_body c e kd i st) = ray st"
  "rng (lamp_body c e kd i st) = rng st"
  "work_array (lamp_body c e kd i st) = work_array st"
  "work_pool_wgs (lamp_body c e kd i st) = work_pool_wgs st"
  "global_writes (lamp_body c e kd i st) = global_writes st"
  by (simp_all add: lamp_body_def Let_def split: option.splits)

lemma lamp_body_slot:
  "path_state (lamp_body c e kd i st) j =
     (if j = i \<and> lamp_mis_applies c e kd st i then lamp_path_state e st i else path_state st j)"
  "path_radiance (lamp_body c e kd i st) j =
     (if j = i \<and> lamp_mis_applies c e kd st i then lamp_radiance e st i else path_radiance st j)"
  by (simp_all add: lamp_body_def IS_STATE_def lamp_mis_applies_def lamp_path_state_def
      lamp_light_ray_def lamp_radiance_def Let_def split: option.splits)

lemma lamp_body_frame2:
  "debug_data (lamp_body c e kd i st) = debug_data st"
  "isect_t (lamp_body c e kd i st) = isect_t st"
  by (simp_all add: lamp_body_def Let_def split: option.splits)

lemma lamp_notions_cong:
  assumes "ray_state st' = ray_state st" and "path_state st' = path_state st"
    and "ray st' = ray st" and "isect_t st' = isect_t st"
    and "path_radiance st' = path_radiance st" and "throughput st' = throughput st"
  shows "lamp_mis_applies c e kd st' i = lamp_mis_applies c e kd st i"
    and "lamp_path_state e st' i = lamp_path_state e st i"
    and "lamp_radiance e st' i = lamp_radiance e st i"
  using assms
  by (simp_all add: lamp_mis_applies_def lamp_path_state_def lamp_radiance_def lamp_light_ray_def
      split: option.splits)

lemma kernel_lamp_emission_unfold:
  "kernel_lamp_emission c e kd sp ln st =
     (let st1 = (if global_id0 ln = 0 \<and> global_id1 ln = 0
                 then st\<lparr>queue_index := (queue_index st)(QUEUE_ACTIVE_AND_REGENERATED_RAYS := 0)\<rparr>
                 else st);
          st2 = (if use_queues_flag sp \<noteq> 0
                 then st1\<lparr>queue_data :=
                        snd (get_ray_index e (global_id1 ln * global_size0 ln + global_id0 ln)
                               QUEUE_ACTIVE_AND_REGENERATED_RAYS (queue_data st) (queue_size sp) 1)\<rparr>
                 else st1)
      in case lamp_ray_index e sp ln st of
           None \<Rightarrow> st2
         | Some i \<Rightarrow> lamp_body c e kd i st2)"
  by (simp add: kernel_lamp_emission_def lamp_ray_index_def Let_def case_prod_beta)

lemma kernel_lamp_emission_slot:
  "path_state (kernel_lamp_emission c e kd sp ln st) j =
     (if lamp_ray_index e sp ln st = Some j \<and> lamp_mis_applies c e kd st j
      then lamp_path_state e st j else path_state st j)"
  "path_radiance (kernel_lamp_emission c e kd sp ln st) j =
     (if lamp_ray_index e sp ln st = Some j \<and> lamp_mis_applies c e kd st j
      then lamp_radiance e st j else path_radiance st j)"
proof -
  let ?st1 = "if global_id0 ln = 0 \<and> global_id1 ln = 0
              then st\<lparr>queue_index := (queue_index st)(QUEUE_ACTIVE_AND_REGENERATED_RAYS := 0)\<rparr>
              else st"
  let ?st2 = "if use_queues_flag sp \<noteq> 0
              then ?st1\<lparr>queue_data :=
                     snd (get_ray_index e (global_id1 ln * global_size0 ln + global_id0 ln)
                            QUEUE_ACTIVE_AND_REGENERATED_RAYS (queue_data st) (queue_size sp) 1)\<rparr>
              else ?st1"
  have fr: "ray_state ?st2 = ray_state st" "path_state ?st2 = path_state st"
    "ray ?st2 = ray st" "isect_t ?st2 = isect_t st"
    "path_radiance ?st2 = path_radiance st" "throughput ?st2 = throughput st"
    by simp_all
  note nt = lamp_notions_cong [OF fr]
  have k: "kernel_lamp_emission c e kd sp ln st =
             (case lamp_ray_index e sp ln st of None \<Rightarrow> ?st2 | Some i \<Rightarrow> lamp_body c e kd i ?st2)"
    by (simp only: kernel_lamp_emission_unfold Let_def)
  show "path_state (kernel_lamp_emission c e kd sp ln st) j =
     (if lamp_ray_index e sp ln st = Some j \<and> lamp_mis_applies c e kd st j
      then lamp_path_state e st j else path_state st j)"
  proof (cases "lamp_ray_index e sp ln st")
    case None
    then show ?thesis unfolding k by (simp add: fr)
  next
    case (Some i)
    then show ?thesis unfolding k by (auto simp add: lamp_body_slot nt fr)
  qed
  show "path_radiance (kernel_lamp_emission c e kd sp ln st) j =
     (if lamp_ray_index e sp ln st = Some j \<and> lamp_mis_applies c e kd st j
      then lamp_radiance e st j else path_radiance st j)"
  proof (cases "lamp_ray_index e sp ln st")
    case None
    then show ?thesis unfolding k by (simp add: fr)
  next
    case (Some i)
    then show ?thesis unfolding k by (auto simp add: lamp_body_slot nt fr)
  qed
qed

lemma kernel_lamp_emission_fields:
  "ray_state (kernel_lamp_emission c e kd sp ln st) = ray_state st"
  "assigned (kernel_lamp_emission c e kd sp ln st) = assigned st"
  "queue_index (kernel_lamp_emission c e kd sp ln st) =
     (if global_id0 ln = 0 \<and> global_id1 ln = 0
      then (queue_index st)(QUEUE_ACTIVE_AND_REGENERATED_RAYS := 0)
      else queue_index st)"
  "queue_data (kernel_lamp_emission c e kd sp ln st) =
     (if use_queues_flag sp \<noteq> 0
      then snd (get_ray_index e (global_id1 ln * global_size0 ln + global_id0 ln)
                  QUEUE_ACTIVE_AND_REGENERATED_RAYS (queue_data st) (queue_size sp) 1)
      else queue_data st)"
  "throughput (kernel_lamp_emission c e kd sp ln st) = throughput st"
  "L_transparent (kernel_lamp_emission c e kd sp ln st) = L_transparent st"
  "ray (kernel_lamp_emission c e kd sp ln st) = ray st"
  "rng (kernel_lamp_emission c e kd sp ln st) = rng st"
  "work_array (kernel_lamp_emission c e kd sp ln st) = work_array st"
  "debug_data (kernel_lamp_emission c e kd sp ln st) = debug_data st"
  "isect_t (kernel_lamp_emission c e kd sp ln st) = isect_t st"
  "work_pool_wgs (kernel_lamp_emission c e kd sp ln st) = work_pool_wgs st"
  "global_writes (kernel_lamp_emission c e kd sp ln st) = global_writes st"
  by (auto simp add: kernel_lamp_emission_unfold Let_def lamp_body_frame lamp_body_frame2
      split: option.splits)

subsection \<open>From the blocks to the kernel\<close>

lemma prologue_cong:
  "work_array st' = work_array st \<Longrightarrow> prologue c e kd sp i st' = prologue c e kd sp i st"
  by (simp add: prologue_def split: option.splits)

lemma prologue_divisions:
  "prologue c e kd sp i st = Some lc \<Longrightarrow> divisions_defined c sp i"
  by (auto simp add: prologue_def divisions_defined_def Let_def case_prod_beta
      split: option.splits if_splits)

lemma hit_background_frame:
  "queue_data (hit_background c e kd i st) = queue_data st"
  "queue_index (hit_background c e kd i st) = queue_index st"
  "work_pool_wgs (hit_background c e kd i st) = work_pool_wgs st"
  by (simp_all add: hit_background_def ASSIGN_RAY_STATE_def Let_def)

lemma update_buffer_frame:
  "queue_data (update_buffer c e i st lc) = queue_data st"
  "queue_index (update_buffer c e i st lc) = queue_index st"
  "work_pool_wgs (update_buffer c e i st lc) = work_pool_wgs st"
  by (simp_all add: update_buffer_def ASSIGN_RAY_STATE_def global_call_def Let_def case_prod_beta)

lemma no_work_cong:
  "work_pool_wgs st' = work_pool_wgs st \<Longrightarrow> no_work c e sp i st' lc = no_work c e sp i st lc"
  by (simp add: no_work_def)

lemma enqueue_ray_index_local_slot:
  "throughput (enqueue_ray_index_local i q f st) = throughput st"
  "L_transparent (enqueue_ray_index_local i q f st) = L_transparent st"
  "path_state (enqueue_ray_index_local i q f st) = path_state st"
  by (simp_all add: enqueue_ray_index_local_def)

text \<open>The block of lines 201-265 followed by an enqueue with the flag it leaves.\<close>

lemma to_regenerate_block_outcome:
  assumes tr: "ray_state st i = RAY_TO_REGENERATE"
    and fl: "\<not> enqueue_flag lc"
    and dd: "divisions_defined c sp i"
  shows "case to_regenerate c e kd sp i st lc of
           None \<Rightarrow> False
         | Some (st', lc') \<Rightarrow>
            (let fin = enqueue_ray_index_local i QUEUE_ACTIVE_AND_REGENERATED_RAYS (enqueue_flag lc') st'
             in if no_work c e sp i st lc then
                  ray_state st' i = RAY_INACTIVE
                  \<and> queue_data fin = queue_data st \<and> queue_index fin = queue_index st
                else if f_neq e (Ray_t (ray st' i)) (f_zero e) then
                  ray_state st' i = RAY_REGENERATED
                  \<and> throughput st' i = (f_one e, f_one e, f_one e)
                  \<and> L_transparent st' i = f_zero e
                  \<and> bounce (path_state st' i) = 0
                  \<and> queue_data fin = (queue_data st)
                       (QUEUE_ACTIVE_AND_REGENERATED_RAYS :=
                          (queue_data st QUEUE_ACTIVE_AND_REGENERATED_RAYS)
                            (queue_index st QUEUE_ACTIVE_AND_REGENERATED_RAYS := i))
                  \<and> queue_index fin = (queue_index st)
                       (QUEUE_ACTIVE_AND_REGENERATED_RAYS :=
                          queue_index st QUEUE_ACTIVE_AND_REGENERATED_RAYS + 1)
                else
                  ray_state st' i = RAY_TO_REGENERATE
                  \<and> queue_data fin = queue_data st \<and> queue_index fin = queue_index st)"
proof (cases "no_work c e sp i st lc")
  case True
  then have "to_regenerate c e kd sp i st lc = Some (claim_work c e sp i st lc)"
    by (simp add: to_regenerate_unfold [OF tr])
  with True fl show ?thesis
    by (simp add: enqueue_ray_index_local_def claim_work_state claim_work_frame case_prod_beta)
next
  case False
  let ?st1 = "fst (claim_work c e sp i st lc)"
  let ?lc1 = "snd (claim_work c e sp i st lc)"
  from remap_work_defined [OF dd, of e kd ?st1 ?lc1]
  obtain st2 lc2 px py where
    rm: "remap_work c e kd sp i ?st1 ?lc1 = Some (st2, lc2, px, py)"
    and st2: "st2 = ?st1\<lparr>work_array := (work_array ?st1)
                  (i := if WORK_STEALING c then my_work ?lc1 else sample ?lc1 + parallel_samples sp)\<rparr>"
    and fl2: "enqueue_flag lc2 = enqueue_flag ?lc1"
    by blast
  let ?r = "regenerate c e kd i st2 lc2 px py"
  have eq: "to_regenerate c e kd sp i st lc = Some ?r"
    using False by (simp add: to_regenerate_unfold [OF tr] rm)
  have q2: "queue_data st2 = queue_data st" "queue_index st2 = queue_index st"
    by (simp_all add: st2 claim_work_frame)
  show ?thesis
  proof (cases "f_neq e (Ray_t (ray (fst ?r) i)) (f_zero e)")
    case valid: True
    note v = valid [unfolded regenerate_ray]
    show ?thesis
      using False valid
      by (simp add: eq regenerate_valid [OF v] regenerate_frame q2 enqueue_ray_index_local_def
          case_prod_beta)
  next
    case degenerate: False
    note d = degenerate [unfolded regenerate_ray]
    show ?thesis
      using False degenerate fl
      by (simp add: eq regenerate_degenerate [OF d] regenerate_frame q2 fl2 claim_work_frame
          enqueue_ray_index_local_def case_prod_beta)
  qed
qed

section \<open>The claims\<close>

subsection \<open>C2: a ray that hit the background\<close>

text \<open>Claim C2 says that for every slot in \<open>RAY_HIT_BACKGROUND\<close> the stage folds the
  background contribution into the radiance accumulator and then moves the slot to
  \<open>RAY_UPDATE_BUFFER\<close>, exactly once. The fold does not happen for a camera ray on a
  transparent background when the background pass is not requested: the radiance
  accumulator of that slot is left as it was, while the value of lines 179-180 would
  differ from it.\<close>

theorem hit_background_fold_counterexample:
  "ray_state (st_ex RAY_HIT_BACKGROUND 0) 0 = RAY_HIT_BACKGROUND
 \<and> path_radiance (hit_background cfg_static ext_ex kd_transparent 0 (st_ex RAY_HIT_BACKGROUND 0)) 0
     = path_radiance (st_ex RAY_HIT_BACKGROUND 0) 0
 \<and> path_radiance (hit_background cfg_static ext_ex kd_transparent 0 (st_ex RAY_HIT_BACKGROUND 0)) 0
     \<noteq> background_fold ext_ex (st_ex RAY_HIT_BACKGROUND 0) 0"
  by (simp add: ex_defs hit_background_def IS_STATE_def ASSIGN_RAY_STATE_def background_fold_def)

text \<open>Claim C2, amended: for every slot in \<open>RAY_HIT_BACKGROUND\<close> the block of lines
  166-184 leaves the slot in \<open>RAY_UPDATE_BUFFER\<close> and assigns the state exactly once;
  the radiance accumulator receives the background contribution when background shading
  is compiled in, unless the slot is a camera ray on a transparent background and the
  background pass is not requested, in which case the accumulator is unchanged.\<close>

theorem hit_background_transition:
  assumes "ray_state st i = RAY_HIT_BACKGROUND"
  shows "ray_state (hit_background c e kd i st) i = RAY_UPDATE_BUFFER
       \<and> new_assigned st (hit_background c e kd i st) = [(i, RAY_UPDATE_BUFFER)]
       \<and> path_radiance (hit_background c e kd i st) i =
           (if transparent_camera e kd (path_state st i) \<and> \<not> background_pass c e kd
            then path_radiance st i
            else if BACKGROUND c then background_fold e st i else path_radiance st i)"
  using assms
  by (simp add: hit_background_def IS_STATE_def ASSIGN_RAY_STATE_def Let_def new_assigned_def
      transparent_camera_def background_pass_def background_fold_def)

theorem hit_background_transition_witness:
  "ray_state (st_ex RAY_HIT_BACKGROUND 0) 0 = RAY_HIT_BACKGROUND
 \<and> ray_state (hit_background cfg_static ext_ex kd_ex 0 (st_ex RAY_HIT_BACKGROUND 0)) 0 = RAY_UPDATE_BUFFER
 \<and> new_assigned (st_ex RAY_HIT_BACKGROUND 0)
      (hit_background cfg_static ext_ex kd_ex 0 (st_ex RAY_HIT_BACKGROUND 0)) = [(0, RAY_UPDATE_BUFFER)]
 \<and> path_radiance (hit_background cfg_static ext_ex kd_ex 0 (st_ex RAY_HIT_BACKGROUND 0)) 0 = 8"
proof -
  have h: "ray_state (st_ex RAY_HIT_BACKGROUND 0) 0 = RAY_HIT_BACKGROUND"
    by (simp add: st_ex_def)
  show ?thesis
    using h hit_background_transition [OF h, of cfg_static ext_ex kd_ex]
    by (simp add: ex_defs transparent_camera_def background_pass_def background_fold_def)
qed

subsection \<open>C3: transparent background\<close>

text \<open>Claim C3 says that a camera ray on a transparent background folds its throughput into
  the transparency accumulator and skips background shading entirely. With the background
  pass requested (line 171) the slot stays in \<open>RAY_HIT_BACKGROUND\<close> and lines 176-183 shade
  the background as well.\<close>

theorem transparent_camera_shading_counterexample:
  "ray_state (st_ex RAY_HIT_BACKGROUND 0) 0 = RAY_HIT_BACKGROUND
 \<and> background_transparent kd_bgpass \<noteq> 0
 \<and> (flag (path_state (st_ex RAY_HIT_BACKGROUND 0) 0) AND PATH_RAY_CAMERA ext_ex) \<noteq> 0
 \<and> path_radiance (hit_background cfg_static ext_ex kd_bgpass 0 (st_ex RAY_HIT_BACKGROUND 0)) 0
     = background_fold ext_ex (st_ex RAY_HIT_BACKGROUND 0) 0
 \<and> path_radiance (hit_background cfg_static ext_ex kd_bgpass 0 (st_ex RAY_HIT_BACKGROUND 0)) 0
     \<noteq> path_radiance (st_ex RAY_HIT_BACKGROUND 0) 0"
  by (simp add: ex_defs hit_background_def IS_STATE_def ASSIGN_RAY_STATE_def background_fold_def)

text \<open>Claim C3, amended: for a slot in \<open>RAY_HIT_BACKGROUND\<close> that is a camera ray on a
  transparent background, the average of the throughput is added to the transparency
  accumulator and the slot moves to \<open>RAY_UPDATE_BUFFER\<close>; background shading is skipped
  (the radiance accumulator is unchanged) unless the background pass is requested, in
  which case the background contribution is accumulated too when background shading is
  compiled in.\<close>

theorem transparent_camera_background:
  assumes "ray_state st i = RAY_HIT_BACKGROUND"
    and "transparent_camera e kd (path_state st i)"
  shows "L_transparent (hit_background c e kd i st) i =
            f_add e (L_transparent st i) (average e (throughput st i))
       \<and> path_radiance (hit_background c e kd i st) i =
           (if background_pass c e kd \<and> BACKGROUND c
            then path_radiance_accum_background e (path_radiance st i) (throughput st i)
                   (indirect_background e (path_state st i) (ray st i)) (bounce (path_state st i))
            else path_radiance st i)
       \<and> ray_state (hit_background c e kd i st) i = RAY_UPDATE_BUFFER"
  using assms
  by (simp add: hit_background_def IS_STATE_def ASSIGN_RAY_STATE_def Let_def
      transparent_camera_def background_pass_def)

theorem transparent_camera_background_witness:
  "ray_state (st_ex RAY_HIT_BACKGROUND 0) 0 = RAY_HIT_BACKGROUND
 \<and> transparent_camera ext_ex kd_transparent (path_state (st_ex RAY_HIT_BACKGROUND 0) 0)
 \<and> L_transparent (hit_background cfg_static ext_ex kd_transparent 0 (st_ex RAY_HIT_BACKGROUND 0)) 0 = 3
 \<and> path_radiance (hit_background cfg_static ext_ex kd_transparent 0 (st_ex RAY_HIT_BACKGROUND 0)) 0 = 5
 \<and> ray_state (hit_background cfg_static ext_ex kd_transparent 0 (st_ex RAY_HIT_BACKGROUND 0)) 0
     = RAY_UPDATE_BUFFER"
proof -
  have h1: "ray_state (st_ex RAY_HIT_BACKGROUND 0) 0 = RAY_HIT_BACKGROUND"
    by (simp add: st_ex_def)
  have h2: "transparent_camera ext_ex kd_transparent (path_state (st_ex RAY_HIT_BACKGROUND 0) 0)"
    by (simp add: ex_defs transparent_camera_def)
  show ?thesis
    using h1 h2 transparent_camera_background [OF h1 h2, of cfg_static]
    by (simp add: ex_defs background_pass_def)
qed

subsection \<open>C4: the output buffer\<close>



subsection \<open>C5: regeneration\<close>

text \<open>Claim C5: a lane of \<^verbatim>\<open>kernel_background_buffer_update\<close> that takes a slot from its
  input queue, in any of the three states that lead to the block of lines 201-265, leaves
  it with one of three outcomes. Without further work the slot is \<open>RAY_INACTIVE\<close> and the
  active queue is as the dequeue left it. With a claimed work unit whose camera ray has
  non-zero length, the throughput is one in each channel, the transparency is zero, the
  bounce count is zero, the slot is \<open>RAY_REGENERATED\<close>, and the kernel has written its index
  once at the end of the active queue and increased the counter of that queue by one. With
  a camera ray of length zero the slot is \<open>RAY_TO_REGENERATE\<close> and the active queue is as
  the dequeue left it. The queue counters are those after the reset of line 83; the locals
  are those of lines 131-164.\<close>

theorem to_regenerate_outcome:
  assumes dq: "get_ray_index e (global_id1 ln * global_size0 ln + global_id0 ln)
                 QUEUE_HITBG_BUFF_UPDATE_TOREGEN_RAYS (queue_data st) (queue_size sp) 1 = (i, qd)"
    and ne: "i \<noteq> QUEUE_EMPTY_SLOT e"
    and inq: "ray_state st i \<in> {RAY_HIT_BACKGROUND, RAY_UPDATE_BUFFER, RAY_TO_REGENERATE}"
    and pl: "prologue c e kd sp i st = Some lc"
  shows "case kernel_background_buffer_update c e kd sp ln st of
           None \<Rightarrow> False
         | Some st' \<Rightarrow>
            (let qi = (if global_id1 ln * global_size0 ln + global_id0 ln = 0
                       then (queue_index st)(QUEUE_HITBG_BUFF_UPDATE_TOREGEN_RAYS := 0)
                       else queue_index st)
             in if no_work c e sp i st lc then
                  ray_state st' i = RAY_INACTIVE
                  \<and> queue_data st' = qd \<and> queue_index st' = qi
                else if f_neq e (Ray_t (ray st' i)) (f_zero e) then
                  ray_state st' i = RAY_REGENERATED
                  \<and> throughput st' i = (f_one e, f_one e, f_one e)
                  \<and> L_transparent st' i = f_zero e
                  \<and> bounce (path_state st' i) = 0
                  \<and> queue_data st' = qd
                       (QUEUE_ACTIVE_AND_REGENERATED_RAYS :=
                          (qd QUEUE_ACTIVE_AND_REGENERATED_RAYS)
                            (qi QUEUE_ACTIVE_AND_REGENERATED_RAYS := i))
                  \<and> queue_index st' = qi
                       (QUEUE_ACTIVE_AND_REGENERATED_RAYS :=
                          qi QUEUE_ACTIVE_AND_REGENERATED_RAYS + 1)
                else
                  ray_state st' i = RAY_TO_REGENERATE
                  \<and> queue_data st' = qd \<and> queue_index st' = qi)"
proof -
  let ?tid = "global_id1 ln * global_size0 ln + global_id0 ln"
  let ?qi = "if ?tid = 0
             then (queue_index st)(QUEUE_HITBG_BUFF_UPDATE_TOREGEN_RAYS := 0)
             else queue_index st"
  let ?st1 = "if ?tid = 0
              then st\<lparr>queue_index := (queue_index st)(QUEUE_HITBG_BUFF_UPDATE_TOREGEN_RAYS := 0)\<rparr>
              else st"
  let ?st2 = "?st1\<lparr>queue_data := qd\<rparr>"
  let ?stU = "update_buffer c e i (hit_background c e kd i ?st2) lc"
  have q1: "queue_data ?st1 = queue_data st" by simp
  have pl2: "prologue c e kd sp i ?st2 = Some lc"
    using pl prologue_cong [of ?st2 st c e kd sp i] by simp
  have tr: "ray_state ?stU i = RAY_TO_REGENERATE"
    using inq by (auto simp add: update_buffer_state hit_background_state)
  have qU: "queue_data ?stU = qd" "queue_index ?stU = ?qi"
    by (simp_all add: update_buffer_frame hit_background_frame)
  have nw: "no_work c e sp i ?stU lc = no_work c e sp i st lc"
    by (rule no_work_cong) (simp add: update_buffer_frame hit_background_frame)
  have bd: "body c e kd sp i ?st2 = to_regenerate c e kd sp i ?stU lc"
    by (simp add: body_def pl2)
  note blk = to_regenerate_block_outcome [OF tr prologue_enqueue_flag [OF pl] prologue_divisions [OF pl],
    of e kd]
  show ?thesis
  proof (cases "to_regenerate c e kd sp i ?stU lc")
    case None
    with blk show ?thesis by simp
  next
    case (Some r)
    obtain st3 lc' where r: "r = (st3, lc')" by (cases r)
    have bd': "body c e kd sp i ?st2 = Some (st3, lc')"
      using bd Some r by simp
    have k: "kernel_background_buffer_update c e kd sp ln st =
               Some (enqueue_ray_index_local i QUEUE_ACTIVE_AND_REGENERATED_RAYS (enqueue_flag lc') st3)"
      using ne bd' unfolding kernel_background_buffer_update_def Let_def q1 dq by simp
    from blk Some r show ?thesis
      unfolding k nw qU
      by (simp add: Let_def enqueue_ray_index_local_frame enqueue_ray_index_local_slot
          split: if_splits)
  qed
qed

theorem to_regenerate_outcome_witness:
  "get_ray_index ext_ex (global_id1 ln_ex * global_size0 ln_ex + global_id0 ln_ex)
      QUEUE_HITBG_BUFF_UPDATE_TOREGEN_RAYS (queue_data (st_ex RAY_TO_REGENERATE 0))
      (queue_size sp_ex) 1 = (0, queue_data (st_ex RAY_TO_REGENERATE 0))
 \<and> 0 \<noteq> QUEUE_EMPTY_SLOT ext_ex
 \<and> ray_state (st_ex RAY_TO_REGENERATE 0) 0
      \<in> {RAY_HIT_BACKGROUND, RAY_UPDATE_BUFFER, RAY_TO_REGENERATE}
 \<and> prologue cfg_static ext_ex kd_ex sp_ex 0 (st_ex RAY_TO_REGENERATE 0) = Some (lc_ex 0)
 \<and> (case kernel_background_buffer_update cfg_static ext_ex kd_ex sp_ex ln_ex
            (st_ex RAY_TO_REGENERATE 0) of
       None \<Rightarrow> False
     | Some st' \<Rightarrow>
         ray_state st' 0 = RAY_REGENERATED
       \<and> throughput st' 0 = (1, 1, 1) \<and> L_transparent st' 0 = 0 \<and> bounce (path_state st' 0) = 0
       \<and> queue_data (st_ex RAY_TO_REGENERATE 0) QUEUE_ACTIVE_AND_REGENERATED_RAYS 3 = 3
       \<and> queue_data st' QUEUE_ACTIVE_AND_REGENERATED_RAYS 3 = 0
       \<and> queue_index st' QUEUE_ACTIVE_AND_REGENERATED_RAYS = 4)
 \<and> (case kernel_background_buffer_update cfg_static ext_ex kd_ex sp_ex ln_ex
            (st_ex RAY_UPDATE_BUFFER 9) of
       None \<Rightarrow> False
     | Some st' \<Rightarrow>
         ray_state st' 0 = RAY_INACTIVE
       \<and> queue_data st' = queue_data (st_ex RAY_UPDATE_BUFFER 9)
       \<and> queue_index st' QUEUE_ACTIVE_AND_REGENERATED_RAYS = 3)
 \<and> (case kernel_background_buffer_update cfg_steal ext_ex kd_ex sp_ex ln_ex
            (st_ex RAY_TO_REGENERATE 1) of
       None \<Rightarrow> False
     | Some st' \<Rightarrow>
         ray_state st' 0 = RAY_TO_REGENERATE
       \<and> queue_data st' = queue_data (st_ex RAY_TO_REGENERATE 1)
       \<and> queue_index st' QUEUE_ACTIVE_AND_REGENERATED_RAYS = 3)"
proof -
  have h1: "get_ray_index ext_ex (global_id1 ln_ex * global_size0 ln_ex + global_id0 ln_ex)
      QUEUE_HITBG_BUFF_UPDATE_TOREGEN_RAYS (queue_data (st_ex s w))
      (queue_size sp_ex) 1 = (0, queue_data (st_ex s w))" for s w
    by (simp add: ex_defs)
  have h2: "0 \<noteq> QUEUE_EMPTY_SLOT ext_ex"
    by (simp add: ex_defs)
  have h3: "ray_state (st_ex RAY_TO_REGENERATE w) 0
      \<in> {RAY_HIT_BACKGROUND, RAY_UPDATE_BUFFER, RAY_TO_REGENERATE}" for w
    by (simp add: ex_defs)
  have h3': "ray_state (st_ex RAY_UPDATE_BUFFER 9) 0
      \<in> {RAY_HIT_BACKGROUND, RAY_UPDATE_BUFFER, RAY_TO_REGENERATE}"
    by (simp add: ex_defs)
  have h4: "prologue cfg_static ext_ex kd_ex sp_ex 0 (st_ex s w) = Some (lc_ex w)" for s w
    by (simp add: ex_defs eval_defs prologue_def rng_state_at_def buffer_at_def)
  have h5: "prologue cfg_steal ext_ex kd_ex sp_ex 0 (st_ex RAY_TO_REGENERATE 1)
              = Some ((lc_ex 1)\<lparr>my_work := 1\<rparr>)"
    by (simp add: ex_defs eval_defs prologue_def rng_state_at_def buffer_at_def)
  note t1 = to_regenerate_outcome [OF h1 [of RAY_TO_REGENERATE 0] h2 h3 [of 0] h4 [of RAY_TO_REGENERATE 0]]
  note t2 = to_regenerate_outcome [OF h1 [of RAY_UPDATE_BUFFER 9] h2 h3' h4 [of RAY_UPDATE_BUFFER 9]]
  note t3 = to_regenerate_outcome [OF h1 [of RAY_TO_REGENERATE 1] h2 h3 [of 1] h5]
  show ?thesis
    using h1 [of RAY_TO_REGENERATE 0] h2 h3 [of 0] h4 [of RAY_TO_REGENERATE 0] t1 t2 t3
    by (simp add: ex_defs eval_defs kernel_background_buffer_update_def body_def prologue_def
        hit_background_def update_buffer_def rng_state_at_def buffer_at_def)
qed

subsection \<open>C6: no retry within the invocation\<close>




subsection \<open>C7: what the lamp emission stage changes\<close>

text \<open>Claim C7 says that the lamp emission stage changes the radiance accumulator only and
  leaves queue contents and queue counters as they are. The lane with global identifiers
  (0, 0) resets the counter of the active queue (lines 45-47), and line 89 advances
  \<^verbatim>\<open>ray_t\<close> of the path state.\<close>

theorem kernel_lamp_emission_queue_counterexample:
  "queue_index (kernel_lamp_emission cfg_static ext_ex kd_ex sp_ex ln_ex st_indirect)
     QUEUE_ACTIVE_AND_REGENERATED_RAYS = 0
 \<and> queue_index st_indirect QUEUE_ACTIVE_AND_REGENERATED_RAYS = 3
 \<and> ray_t (path_state (kernel_lamp_emission cfg_static ext_ex kd_ex sp_ex ln_ex st_indirect) 0) = 6
 \<and> ray_t (path_state st_indirect 0) = 4"
  by (simp add: ex_defs kernel_lamp_emission_def lamp_body_def IS_STATE_def light_ray_P_def)

text \<open>Claim C7, amended: the lamp emission stage never changes a state tag and makes no
  state assignment; the counter of the active queue is reset to zero by the lane with
  global identifiers (0, 0) and no counter changes otherwise; the queue contents change
  only as the dequeue helper \<^verbatim>\<open>get_ray_index\<close> changes them. Of the path states and the
  radiance accumulators, only those of the slot that the lane works on may change, and
  only when that slot is handled by lines 85-100: its \<^verbatim>\<open>ray_t\<close> is advanced by the
  intersection distance, all other fields of its path state are kept, and its radiance
  accumulator receives the lamp emission if there is one. Every other slot keeps its path
  state and its radiance accumulator. Throughput, transparency, rays, random number
  streams, work array, debug data, intersections, work pool and the global buffers are
  unchanged.\<close>

theorem kernel_lamp_emission_frame:
  "ray_state (kernel_lamp_emission c e kd sp ln st) = ray_state st
 \<and> assigned (kernel_lamp_emission c e kd sp ln st) = assigned st
 \<and> queue_index (kernel_lamp_emission c e kd sp ln st) =
     (if global_id0 ln = 0 \<and> global_id1 ln = 0
      then (queue_index st)(QUEUE_ACTIVE_AND_REGENERATED_RAYS := 0)
      else queue_index st)
 \<and> queue_data (kernel_lamp_emission c e kd sp ln st) =
     (if use_queues_flag sp \<noteq> 0
      then snd (get_ray_index e (global_id1 ln * global_size0 ln + global_id0 ln)
                  QUEUE_ACTIVE_AND_REGENERATED_RAYS (queue_data st) (queue_size sp) 1)
      else queue_data st)
 \<and> path_state (kernel_lamp_emission c e kd sp ln st) j =
     (if lamp_ray_index e sp ln st = Some j \<and> lamp_mis_applies c e kd st j
      then (path_state st j)\<lparr>ray_t := f_add e (ray_t (path_state st j)) (isect_t st j)\<rparr>
      else path_state st j)
 \<and> path_radiance (kernel_lamp_emission c e kd sp ln st) j =
     (if lamp_ray_index e sp ln st = Some j \<and> lamp_mis_applies c e kd st j
      then lamp_radiance e st j
      else path_radiance st j)
 \<and> throughput (kernel_lamp_emission c e kd sp ln st) = throughput st
 \<and> L_transparent (kernel_lamp_emission c e kd sp ln st) = L_transparent st
 \<and> ray (kernel_lamp_emission c e kd sp ln st) = ray st
 \<and> rng (kernel_lamp_emission c e kd sp ln st) = rng st
 \<and> work_array (kernel_lamp_emission c e kd sp ln st) = work_array st
 \<and> debug_data (kernel_lamp_emission c e kd sp ln st) = debug_data st
 \<and> isect_t (kernel_lamp_emission c e kd sp ln st) = isect_t st
 \<and> work_pool_wgs (kernel_lamp_emission c e kd sp ln st) = work_pool_wgs st
 \<and> global_writes (kernel_lamp_emission c e kd sp ln st) = global_writes st"
  by (simp add: kernel_lamp_emission_fields kernel_lamp_emission_slot lamp_path_state_def)

theorem kernel_lamp_emission_frame_witness:
  "ray_state (kernel_lamp_emission cfg_static ext_ex kd_ex sp_ex ln_ex st_indirect) = ray_state st_indirect
 \<and> queue_index (kernel_lamp_emission cfg_static ext_ex kd_ex sp_ex ln_ex st_indirect)
     = (queue_index st_indirect)(QUEUE_ACTIVE_AND_REGENERATED_RAYS := 0)
 \<and> lamp_ray_index ext_ex sp_ex ln_ex st_indirect = Some 0
 \<and> path_state (kernel_lamp_emission cfg_static ext_ex kd_ex sp_ex ln_ex st_indirect) 0
     = \<lparr>flag = 0, bounce = 1, ray_t = 6\<rparr>
 \<and> path_radiance (kernel_lamp_emission cfg_static ext_ex kd_ex sp_ex ln_ex st_indirect) 0 = 8
 \<and> path_state (kernel_lamp_emission cfg_static ext_ex kd_ex sp_ex ln_ex st_indirect) 1
     = path_state st_indirect 1
 \<and> path_radiance (kernel_lamp_emission cfg_static ext_ex kd_ex sp_ex ln_ex st_indirect) 1
     = path_radiance st_indirect 1"
  using kernel_lamp_emission_frame [of cfg_static ext_ex kd_ex sp_ex ln_ex st_indirect 0]
    kernel_lamp_emission_frame [of cfg_static ext_ex kd_ex sp_ex ln_ex st_indirect 1]
  by (simp add: ex_defs lamp_ray_index_def lamp_mis_applies_def lamp_radiance_def
      lamp_path_state_def lamp_light_ray_def)

subsection \<open>C8: the static partition\<close>

text \<open>Claim C8 says that without work stealing the slot becomes inactive exactly when the
  advanced sample counter would exceed the end sample. The test of line 210 is
  \<^verbatim>\<open>>=\<close>: with the advanced counter equal to the end sample the slot becomes inactive
  although the counter does not exceed it.\<close>

theorem static_partition_end_sample_counterexample:
  "\<not> WORK_STEALING cfg_static
 \<and> ray_state (st_ex RAY_TO_REGENERATE 0) 0 = RAY_TO_REGENERATE
 \<and> work_array (st_ex RAY_TO_REGENERATE 0) 0 + parallel_samples (sp_ex\<lparr>end_sample := 1\<rparr>)
      = end_sample (sp_ex\<lparr>end_sample := 1\<rparr>)
 \<and> \<not> end_sample (sp_ex\<lparr>end_sample := 1\<rparr>)
        < work_array (st_ex RAY_TO_REGENERATE 0) 0 + parallel_samples (sp_ex\<lparr>end_sample := 1\<rparr>)
 \<and> (case kernel_background_buffer_update cfg_static ext_ex kd_ex (sp_ex\<lparr>end_sample := 1\<rparr>) ln_ex
            (st_ex RAY_TO_REGENERATE 0) of
       None \<Rightarrow> False
     | Some st' \<Rightarrow> ray_state st' 0 = RAY_INACTIVE)"
  by (simp add: ex_defs eval_defs kernel_background_buffer_update_def body_def prologue_def
      hit_background_def update_buffer_def rng_state_at_def buffer_at_def)

text \<open>Claim C8, amended: without work stealing, a slot in \<open>RAY_TO_REGENERATE\<close> becomes
  \<open>RAY_INACTIVE\<close> exactly when its sample counter advanced by \<^verbatim>\<open>parallel_samples\<close> (in
  32-bit unsigned arithmetic) is greater than or equal to \<^verbatim>\<open>end_sample\<close>, and then neither
  the work array nor the locals change. Otherwise the advanced counter is stored in the
  work array entry of the slot and becomes its sample, the two buffer pointers of the slot
  stay as they are, and the camera ray is set up for the pixel
  \<open>(sx + tile_x, sy + tile_y)\<close> that the ray index alone determines.\<close>

theorem static_partition_claim:
  assumes ws: "\<not> WORK_STEALING c"
    and tr: "ray_state st i = RAY_TO_REGENERATE"
    and d1: "c_sdiv i (parallel_samples sp) = Some q"
    and d2: "c_smod q (sw sp) = Some qx"
    and d3: "c_sdiv q (sw sp) = Some qy"
  shows "case to_regenerate c e kd sp i st lc of
           None \<Rightarrow> False
         | Some (st', lc') \<Rightarrow>
             (ray_state st' i = RAY_INACTIVE \<longleftrightarrow> end_sample sp \<le> sample lc + parallel_samples sp)
           \<and> (if end_sample sp \<le> sample lc + parallel_samples sp
              then work_array st' = work_array st \<and> lc' = lc
              else work_array st' = (work_array st)(i := sample lc + parallel_samples sp)
                 \<and> sample lc' = sample lc + parallel_samples sp
                 \<and> rng_state lc' = rng_state lc
                 \<and> per_sample_output_buffers lc' = per_sample_output_buffers lc
                 \<and> (rng st' i, ray st' i) =
                     kernel_path_trace_setup e (global_writes st) (rng_state lc)
                       (sample lc + parallel_samples sp) (sx sp + qx) (sy sp + qy)
                       (rng st i) (ray st i))"
proof (cases "end_sample sp \<le> sample lc + parallel_samples sp")
  case True
  then have nw: "no_work c e sp i st lc" using ws by (simp add: no_work_def)
  have cw: "claim_work c e sp i st lc = (ASSIGN_RAY_STATE st i RAY_INACTIVE, lc)"
    using ws True by (simp add: claim_work_def)
  show ?thesis
    using True nw by (simp add: to_regenerate_unfold [OF tr] cw ASSIGN_RAY_STATE_def)
next
  case False
  then have nw: "\<not> no_work c e sp i st lc" using ws by (simp add: no_work_def)
  have cw: "claim_work c e sp i st lc = (st, lc)"
    using ws False by (simp add: claim_work_def)
  let ?st2 = "st\<lparr>work_array := (work_array st)(i := sample lc + parallel_samples sp)\<rparr>"
  let ?lc2 = "lc\<lparr>sample := sample lc + parallel_samples sp\<rparr>"
  have rm: "remap_work c e kd sp i st lc = Some (?st2, ?lc2, sx sp + qx, sy sp + qy)"
    using ws d1 d2 d3 by (simp add: remap_work_def Let_def)
  let ?r = "regenerate c e kd i ?st2 ?lc2 (sx sp + qx) (sy sp + qy)"
  have eq: "to_regenerate c e kd sp i st lc = Some ?r"
    using nw by (simp add: to_regenerate_unfold [OF tr] cw rm)
  have rs: "ray_state (fst ?r) i \<noteq> RAY_INACTIVE"
    by (simp add: regenerate_def ASSIGN_RAY_STATE_def global_call_def Let_def case_prod_beta)
  show ?thesis
    using False rs
    by (simp add: eq case_prod_beta regenerate_frame regenerate_ray)
qed

theorem static_partition_claim_witness:
  "\<not> WORK_STEALING cfg_static
 \<and> ray_state (st_ex RAY_TO_REGENERATE 0) 1 = RAY_TO_REGENERATE
 \<and> c_sdiv 1 (parallel_samples sp_ex) = Some 1
 \<and> c_smod 1 (sw sp_ex) = Some 1
 \<and> c_sdiv 1 (sw sp_ex) = Some 0
 \<and> (case to_regenerate cfg_static ext_ex kd_ex sp_ex 1 (st_ex RAY_TO_REGENERATE 0) (lc_ex 0) of
       None \<Rightarrow> False
     | Some (st', lc') \<Rightarrow>
         ray_state st' 1 \<noteq> RAY_INACTIVE
       \<and> work_array st' 1 = 1 \<and> work_array st' 0 = 0 \<and> sample lc' = 1
       \<and> (rng st' 1, ray st' 1) =
            kernel_path_trace_setup ext_ex [] 0 1 1 0 0
              (ray (st_ex RAY_TO_REGENERATE 0) 1))"
proof -
  have h0: "\<not> WORK_STEALING cfg_static"
    by (simp add: cfg_static_def)
  have h1: "ray_state (st_ex RAY_TO_REGENERATE 0) 1 = RAY_TO_REGENERATE"
    by (simp add: st_ex_def)
  have h2: "c_sdiv 1 (parallel_samples sp_ex) = Some 1"
    by (simp add: ex_defs eval_defs)
  have h3: "c_smod 1 (sw sp_ex) = Some 1"
    by (simp add: ex_defs eval_defs)
  have h4: "c_sdiv 1 (sw sp_ex) = Some 0"
    by (simp add: ex_defs eval_defs)
  show ?thesis
    using h0 h1 h2 h3 h4 static_partition_claim [OF h0 h1 h2 h3 h4, of "lc_ex 0" ext_ex kd_ex]
    by (simp add: ex_defs eval_defs)
qed

subsection \<open>C9: the zero contribution of a degenerate ray\<close>



subsection \<open>C10: the states at the end of the stage\<close>

text \<open>Claim C10: a lane that takes from the input queue a slot in one of the three states
  that the queue holds (lines 64-67) leaves it in \<open>RAY_TO_REGENERATE\<close>, \<open>RAY_REGENERATED\<close>
  or \<open>RAY_INACTIVE\<close>; it is left in \<open>RAY_TO_REGENERATE\<close> only with a camera ray of length
  zero and with the four-channel write of zeros and the end of the random number stream as
  the last two calls on the global buffers.\<close>

theorem background_buffer_update_final_state:
  assumes dq: "get_ray_index e (global_id1 ln * global_size0 ln + global_id0 ln)
                 QUEUE_HITBG_BUFF_UPDATE_TOREGEN_RAYS (queue_data st) (queue_size sp) 1 = (i, qd)"
    and ne: "i \<noteq> QUEUE_EMPTY_SLOT e"
    and inq: "ray_state st i \<in> {RAY_HIT_BACKGROUND, RAY_UPDATE_BUFFER, RAY_TO_REGENERATE}"
    and dd: "divisions_defined c sp i"
  shows "case kernel_background_buffer_update c e kd sp ln st of
           None \<Rightarrow> False
         | Some st' \<Rightarrow>
             ray_state st' i \<in> {RAY_TO_REGENERATE, RAY_REGENERATED, RAY_INACTIVE}
           \<and> (ray_state st' i = RAY_TO_REGENERATE \<longrightarrow>
                \<not> f_neq e (Ray_t (ray st' i)) (f_zero e)
                \<and> ends_with_zero_write e (global_writes st'))"
proof -
  let ?tid = "global_id1 ln * global_size0 ln + global_id0 ln"
  let ?st1 = "if ?tid = 0
              then st\<lparr>queue_index := (queue_index st)(QUEUE_HITBG_BUFF_UPDATE_TOREGEN_RAYS := 0)\<rparr>
              else st"
  let ?st2 = "?st1\<lparr>queue_data := qd\<rparr>"
  have q1: "queue_data ?st1 = queue_data st" by simp
  have inq2: "ray_state ?st2 i \<in> {RAY_HIT_BACKGROUND, RAY_UPDATE_BUFFER, RAY_TO_REGENERATE}"
    using inq by simp
  from body_final [OF inq2 dd, of e kd] obtain st' lc' where
    bd: "body c e kd sp i ?st2 = Some (st', lc')"
    and fin: "ray_state st' i \<in> {RAY_TO_REGENERATE, RAY_REGENERATED, RAY_INACTIVE}"
    "ray_state st' i = RAY_TO_REGENERATE \<longrightarrow>
       \<not> f_neq e (Ray_t (ray st' i)) (f_zero e) \<and> ends_with_zero_write e (global_writes st')"
    by blast
  have "kernel_background_buffer_update c e kd sp ln st =
          Some (enqueue_ray_index_local i QUEUE_ACTIVE_AND_REGENERATED_RAYS (enqueue_flag lc') st')"
    using ne bd unfolding kernel_background_buffer_update_def Let_def q1 dq by simp
  with fin show ?thesis
    by (simp add: enqueue_ray_index_local_frame)
qed

theorem background_buffer_update_final_state_witness:
  "get_ray_index ext_ex (global_id1 ln_ex * global_size0 ln_ex + global_id0 ln_ex)
      QUEUE_HITBG_BUFF_UPDATE_TOREGEN_RAYS (queue_data (st_ex RAY_HIT_BACKGROUND 1))
      (queue_size sp_ex) 1 = (0, queue_data (st_ex RAY_HIT_BACKGROUND 1))
 \<and> 0 \<noteq> QUEUE_EMPTY_SLOT ext_ex
 \<and> ray_state (st_ex RAY_HIT_BACKGROUND 1) 0
      \<in> {RAY_HIT_BACKGROUND, RAY_UPDATE_BUFFER, RAY_TO_REGENERATE}
 \<and> divisions_defined cfg_static sp_ex 0
 \<and> (case kernel_background_buffer_update cfg_static ext_ex kd_ex sp_ex ln_ex
            (st_ex RAY_HIT_BACKGROUND 1) of
       None \<Rightarrow> False
     | Some st' \<Rightarrow>
         ray_state st' 0 = RAY_TO_REGENERATE
       \<and> \<not> f_neq ext_ex (Ray_t (ray st' 0)) (f_zero ext_ex)
       \<and> ends_with_zero_write ext_ex (global_writes st'))"
proof -
  have h1: "get_ray_index ext_ex (global_id1 ln_ex * global_size0 ln_ex + global_id0 ln_ex)
      QUEUE_HITBG_BUFF_UPDATE_TOREGEN_RAYS (queue_data (st_ex RAY_HIT_BACKGROUND 1))
      (queue_size sp_ex) 1 = (0, queue_data (st_ex RAY_HIT_BACKGROUND 1))"
    by (simp add: ex_defs)
  have h2: "0 \<noteq> QUEUE_EMPTY_SLOT ext_ex"
    by (simp add: ex_defs)
  have h3: "ray_state (st_ex RAY_HIT_BACKGROUND 1) 0
      \<in> {RAY_HIT_BACKGROUND, RAY_UPDATE_BUFFER, RAY_TO_REGENERATE}"
    by (simp add: ex_defs)
  have h4: "divisions_defined cfg_static sp_ex 0"
    by (simp add: ex_defs eval_defs)
  show ?thesis
    using h1 h2 h3 h4 background_buffer_update_final_state [OF h1 h2 h3 h4, of kd_ex]
    by (simp add: ex_defs eval_defs kernel_background_buffer_update_def body_def prologue_def
      hit_background_def update_buffer_def rng_state_at_def buffer_at_def ends_with_zero_write_def)
qed

end
